theory Spec2Isabelle
  imports Main "HOL-Library.Word" "HOL-Library.AList"
begin

section \<open>Values exchanged with the two connections\<close>

text \<open>
  Audio is a sequence of bytes. A JSON document is what \<^verbatim>\<open>json.loads\<close> returns: a
  Python \<^verbatim>\<open>dict\<close> is an association list with its keys in insertion order (a lookup
  takes the first binding; the dicts that \<^verbatim>\<open>json.loads\<close> builds have distinct keys).
  Floating-point numbers are left out of the documents. Strings are byte strings, a
  character outside ASCII being its UTF-8 bytes.
\<close>

type_synonym bytes = "8 word list"

datatype json =
    JNull
  | JBool bool
  | JInt int
  | JStr string
  | JArr "json list"
  | JObj "(string \<times> json) list"

text \<open>
  A text frame is identified with what \<^verbatim>\<open>json.loads\<close> makes of it: a document,
  or a \<^verbatim>\<open>JSONDecodeError\<close>; the text \<^verbatim>\<open>json.dumps(v)\<close> sent on a connection
  is the frame \<open>Text (Document v)\<close>. An iteration over a websocket yields messages
  until the connection closes; a normal closure ends the iteration (the end of the
  list), an abnormal one raises \<^verbatim>\<open>ConnectionClosed\<close> inside it.
\<close>

datatype text_frame = Malformed | Document json

datatype frame = Binary bytes | Text text_frame

datatype 'a recv = Msg 'a | Abnormal_Close

text \<open>
  Exceptions, with the operands that determine their message: the value subscripted
  or decoded, the value and the name of a missing method, the function and the
  arguments of a call that does not fit the signature.
\<close>

datatype type_error =
    Not_subscriptable json
  | Not_bytes_like json
  | Unhashable json
  | Bad_arguments string json

datatype exn =
    JSONDecodeError
  | AttributeError json string
  | KeyError string
  | TypeError type_error
  | BinasciiError string
  | ValueError string
  | ConnectionClosed

text \<open>
  The functions of the Python library and of the environment that the program calls and
  that are not modelled here are the fields of an environment record; every theorem
  holds for every environment. A point in time is a number of microseconds; the
  \<open>n\<close>-th call of \<^verbatim>\<open>uuid.uuid4()\<close> and of \<^verbatim>\<open>datetime.utcnow()\<close> returns
  \<open>uuid4 E n\<close> and \<open>utcnow E n\<close>. \<open>hours_remaining E d\<close> is the JSON number
  \<^verbatim>\<open>round(max(0.0, d.total_seconds() / 3600), 1)\<close> for a difference \<open>d\<close>
  of two points in time: floating-point arithmetic is not modelled.
\<close>

record env =
  b64decode :: "string \<Rightarrow> bytes option"
  b64encode :: "bytes \<Rightarrow> string"
  dumps :: "json \<Rightarrow> string"
  py_repr :: "json \<Rightarrow> string"
  exc_str :: "exn \<Rightarrow> string"
  uuid4 :: "nat \<Rightarrow> string"
  utcnow :: "nat \<Rightarrow> int"
  isoformat :: "int \<Rightarrow> string"
  fromisoformat :: "string \<Rightarrow> int option"
  hours_remaining :: "int \<Rightarrow> json"

subsection \<open>Dictionary access\<close>

text \<open>\<^verbatim>\<open>msg.get(key)\<close>: \<^verbatim>\<open>None\<close> for a missing key; only a dict has the method.\<close>

fun py_get :: "json \<Rightarrow> string \<Rightarrow> exn + json" where
  "py_get (JObj kvs) k = Inr (case map_of kvs k of None \<Rightarrow> JNull | Some v \<Rightarrow> v)"
| "py_get v k = Inl (AttributeError v ''get'')"

text \<open>\<^verbatim>\<open>msg.get(key, default)\<close>.\<close>

fun py_get_default :: "json \<Rightarrow> string \<Rightarrow> json \<Rightarrow> exn + json" where
  "py_get_default (JObj kvs) k d = Inr (case map_of kvs k of None \<Rightarrow> d | Some v \<Rightarrow> v)"
| "py_get_default v k d = Inl (AttributeError v ''get'')"

text \<open>
  \<^verbatim>\<open>msg[key]\<close> with a string key: \<^verbatim>\<open>KeyError\<close> on a dict without the key,
  \<^verbatim>\<open>TypeError\<close> on every other value.
\<close>

fun py_index :: "json \<Rightarrow> string \<Rightarrow> exn + json" where
  "py_index (JObj kvs) k = (case map_of kvs k of None \<Rightarrow> Inl (KeyError k) | Some v \<Rightarrow> Inr v)"
| "py_index v k = Inl (TypeError (Not_subscriptable v))"

text \<open>
  \<^verbatim>\<open>base64.b64decode(x)\<close>: a string is decoded by the library, every other JSON
  value is a \<^verbatim>\<open>TypeError\<close>. A string the library refuses is recorded as
  \<^verbatim>\<open>binascii.Error\<close>, also where the library raises its base class
  \<^verbatim>\<open>ValueError\<close> (a string outside ASCII); both reach the same handlers.
\<close>

fun py_b64decode :: "env \<Rightarrow> json \<Rightarrow> exn + bytes" where
  "py_b64decode E (JStr s) = (case b64decode E s of None \<Rightarrow> Inl (BinasciiError s) | Some b \<Rightarrow> Inr b)"
| "py_b64decode E v = Inl (TypeError (Not_bytes_like v))"

text \<open>The truth value of a document in a condition.\<close>

fun truthy :: "json \<Rightarrow> bool" where
  "truthy JNull = False"
| "truthy (JBool b) = b"
| "truthy (JInt i) = (i \<noteq> 0)"
| "truthy (JStr s) = (s \<noteq> [])"
| "truthy (JArr xs) = (xs \<noteq> [])"
| "truthy (JObj kvs) = (kvs \<noteq> [])"

section \<open>The log\<close>

text \<open>One constructor for each call of the logger in the relay, with the values it formats.\<close>

datatype log_entry =
    Twilio_stream_started json
  | Twilio_stream_stopped
  | Twilio_disconnected
  | Twilio_receiver_error exn
  | Sts_sender_error exn
  | Conversation_text string json
  | Deepgram_event json
  | Deepgram_warning json json
  | Deepgram_disconnected
  | Sts_receiver_error exn
  | Tool_call json json
  | Tool_call_server_side json
  | Tool_response_sent json
  | Function_called json json
  | Function_success json
  | Function_raised json exn

section \<open>Telephony ingest: \<^verbatim>\<open>twilio_receiver\<close> of \<^verbatim>\<open>f/main.py\<close>\<close>

definition SAMPLE_RATE :: int where
  "SAMPLE_RATE = 8000"

definition CHUNK_MS :: int where
  "CHUNK_MS = 20"

text \<open>
  \<^verbatim>\<open>int(SAMPLE_RATE * CHUNK_MS / 1000)\<close>: the quotient is exact, so the float
  division and the truncation give the integer quotient.
\<close>

definition BYTES_PER_CHUNK :: nat where
  "BYTES_PER_CHUNK = nat (SAMPLE_RATE * CHUNK_MS div 1000)"

text \<open>
  The state of the receiver: its buffer, the items put on the audio queue so far
  (\<open>None\<close> is the end-of-stream sentinel), and the log.
\<close>

record rx_state =
  buf :: bytes
  queue :: "bytes option list"
  rx_log :: "log_entry list"

text \<open>
  \<^verbatim>\<open>while len(buf) >= BYTES_PER_CHUNK: await audio_queue.put(bytes(buf[:BYTES_PER_CHUNK]));
  buf = buf[BYTES_PER_CHUNK:]\<close>. The queue is unbounded, so \<^verbatim>\<open>put\<close> never waits.
\<close>

function put_chunks :: "bytes \<Rightarrow> bytes option list \<Rightarrow> bytes \<times> bytes option list" where
  "put_chunks b q =
     (if BYTES_PER_CHUNK \<le> length b
      then put_chunks (drop BYTES_PER_CHUNK b) (q @ [Some (take BYTES_PER_CHUNK b)])
      else (b, q))"
  by pat_completeness auto
termination
  by (relation "measure (\<lambda>(b, q). length b)")
     (auto simp: BYTES_PER_CHUNK_def SAMPLE_RATE_def CHUNK_MS_def)

declare put_chunks.simps [simp del]

text \<open>How the body of the loop leaves: to the next message, by \<^verbatim>\<open>break\<close>, or by raising.\<close>

datatype control = Next | Stop | Fault exn

text \<open>The body of \<^verbatim>\<open>async for raw in ws_twilio\<close>.\<close>

definition on_twilio_message :: "env \<Rightarrow> text_frame \<Rightarrow> rx_state \<Rightarrow> control \<times> rx_state" where
  "on_twilio_message E raw s =
     (case raw of
        Malformed \<Rightarrow> (Fault JSONDecodeError, s)
      | Document msg \<Rightarrow>
         (case py_get msg ''event'' of
            Inl e \<Rightarrow> (Fault e, s)
          | Inr event \<Rightarrow>
             if event = JStr ''media'' then
               (case py_index msg ''media'' of
                  Inl e \<Rightarrow> (Fault e, s)
                | Inr media \<Rightarrow>
                   (case py_index media ''payload'' of
                      Inl e \<Rightarrow> (Fault e, s)
                    | Inr payload \<Rightarrow>
                       (case py_b64decode E payload of
                          Inl e \<Rightarrow> (Fault e, s)
                        | Inr chunk \<Rightarrow>
                           (let (b, q) = put_chunks (buf s @ chunk) (queue s)
                            in (Next, s\<lparr>buf := b, queue := q\<rparr>)))))
             else if event = JStr ''start'' then
               (case py_get msg ''streamSid'' of
                  Inl e \<Rightarrow> (Fault e, s)
                | Inr sid \<Rightarrow> (Next, s\<lparr>rx_log := rx_log s @ [Twilio_stream_started sid]\<rparr>))
             else if event = JStr ''stop'' then
               (Stop, s\<lparr>rx_log := rx_log s @ [Twilio_stream_stopped]\<rparr>)
             else (Next, s)))"

text \<open>
  The loop itself: it ends when the connection closes, at \<^verbatim>\<open>break\<close>, or at the
  first exception, which leaves the \<^verbatim>\<open>try\<close> block.
\<close>

fun twilio_loop :: "env \<Rightarrow> text_frame recv list \<Rightarrow> rx_state \<Rightarrow> exn option \<times> rx_state" where
  "twilio_loop E [] s = (None, s)"
| "twilio_loop E (Abnormal_Close # rest) s = (Some ConnectionClosed, s)"
| "twilio_loop E (Msg raw # rest) s =
     (case on_twilio_message E raw s of
        (Next, s') \<Rightarrow> twilio_loop E rest s'
      | (Stop, s') \<Rightarrow> (None, s')
      | (Fault e, s') \<Rightarrow> (Some e, s'))"

text \<open>
  The whole task: the buffer starts empty, the two handlers log the exception, and the
  \<^verbatim>\<open>finally\<close> clause puts the sentinel on the queue in every case.
\<close>

definition rx_init :: "bytes option list \<Rightarrow> rx_state" where
  "rx_init q = \<lparr>buf = [], queue = q, rx_log = []\<rparr>"

definition twilio_receiver :: "env \<Rightarrow> text_frame recv list \<Rightarrow> bytes option list \<Rightarrow> rx_state" where
  "twilio_receiver E ws_twilio audio_queue =
     (let (r, s) = twilio_loop E ws_twilio (rx_init audio_queue);
          s' = (case r of
                  None \<Rightarrow> s
                | Some ConnectionClosed \<Rightarrow> s\<lparr>rx_log := rx_log s @ [Twilio_disconnected]\<rparr>
                | Some e \<Rightarrow> s\<lparr>rx_log := rx_log s @ [Twilio_receiver_error e]\<rparr>)
      in s'\<lparr>queue := queue s' @ [None]\<rparr>)"

text \<open>The audio frames among the items of a queue.\<close>

definition frames :: "bytes option list \<Rightarrow> bytes list" where
  "frames q = [f. Some f \<leftarrow> q]"

section \<open>Telephony ingest: \<^verbatim>\<open>twilio_receiver\<close> of \<^verbatim>\<open>main.py\<close>\<close>

text \<open>
  The second relay of the repository names its functions as the first one does; its
  definitions carry the prefix \<open>basic\<close> here. It keeps a queue for the stream id
  beside the audio queue, puts no sentinel, and prints instead of logging (the prints
  are left out).
\<close>

definition BUFFER_SIZE :: nat where
  "BUFFER_SIZE = 20 * 160"

record basic_rx_state =
  inbuffer :: bytes
  audio_queue :: "bytes list"
  streamsid_queue :: "json list"

text \<open>
  \<^verbatim>\<open>while len(inbuffer) >= BUFFER_SIZE: chunk = inbuffer[:BUFFER_SIZE];
  audio_queue.put_nowait(chunk); inbuffer = inbuffer[BUFFER_SIZE:]\<close>.
\<close>

function basic_put_chunks :: "bytes \<Rightarrow> bytes list \<Rightarrow> bytes \<times> bytes list" where
  "basic_put_chunks b q =
     (if BUFFER_SIZE \<le> length b
      then basic_put_chunks (drop BUFFER_SIZE b) (q @ [take BUFFER_SIZE b])
      else (b, q))"
  by pat_completeness auto
termination
  by (relation "measure (\<lambda>(b, q). length b)") (auto simp: BUFFER_SIZE_def)

declare basic_put_chunks.simps [simp del]

definition basic_drain :: "basic_rx_state \<Rightarrow> control \<times> basic_rx_state" where
  "basic_drain s =
     (let (b, q) = basic_put_chunks (inbuffer s) (audio_queue s)
      in (Next, s\<lparr>inbuffer := b, audio_queue := q\<rparr>))"

text \<open>
  The body of the \<^verbatim>\<open>try\<close> block inside the loop. The \<^verbatim>\<open>connected\<close> event
  continues with the next message without reaching the \<^verbatim>\<open>while\<close> loop.
\<close>

definition basic_on_twilio_message ::
  "env \<Rightarrow> text_frame \<Rightarrow> basic_rx_state \<Rightarrow> control \<times> basic_rx_state" where
  "basic_on_twilio_message E message s =
     (case message of
        Malformed \<Rightarrow> (Fault JSONDecodeError, s)
      | Document data \<Rightarrow>
         (case py_index data ''event'' of
            Inl e \<Rightarrow> (Fault e, s)
          | Inr event \<Rightarrow>
             if event = JStr ''start'' then
               (case py_index data ''start'' of
                  Inl e \<Rightarrow> (Fault e, s)
                | Inr start \<Rightarrow>
                   (case py_index data ''streamsid'' of
                      Inl e \<Rightarrow> (Fault e, s)
                    | Inr streamsid \<Rightarrow>
                       basic_drain (s\<lparr>streamsid_queue := streamsid_queue s @ [streamsid]\<rparr>)))
             else if event = JStr ''connected'' then (Next, s)
             else if event = JStr ''media'' then
               (case py_index data ''media'' of
                  Inl e \<Rightarrow> (Fault e, s)
                | Inr media \<Rightarrow>
                   (case py_index media ''payload'' of
                      Inl e \<Rightarrow> (Fault e, s)
                    | Inr payload \<Rightarrow>
                       (case py_b64decode E payload of
                          Inl e \<Rightarrow> (Fault e, s)
                        | Inr chunk \<Rightarrow>
                           (case py_index media ''track'' of
                              Inl e \<Rightarrow> (Fault e, s)
                            | Inr track \<Rightarrow>
                               if track = JStr ''inbound''
                               then basic_drain (s\<lparr>inbuffer := inbuffer s @ chunk\<rparr>)
                               else basic_drain s))))
             else if event = JStr ''stop'' then (Stop, s)
             else basic_drain s))"

text \<open>
  The loop: \<^verbatim>\<open>except: break\<close> ends it at the first exception of the body, with
  no trace. An abnormal closure is raised by the iteration itself, outside the
  \<^verbatim>\<open>try\<close> block, and leaves the task.
\<close>

fun basic_twilio_loop ::
  "env \<Rightarrow> text_frame recv list \<Rightarrow> basic_rx_state \<Rightarrow> exn option \<times> basic_rx_state" where
  "basic_twilio_loop E [] s = (None, s)"
| "basic_twilio_loop E (Abnormal_Close # rest) s = (Some ConnectionClosed, s)"
| "basic_twilio_loop E (Msg message # rest) s =
     (case basic_on_twilio_message E message s of
        (Next, s') \<Rightarrow> basic_twilio_loop E rest s'
      | (Stop, s') \<Rightarrow> (None, s')
      | (Fault e, s') \<Rightarrow> (None, s'))"

definition basic_twilio_receiver ::
  "env \<Rightarrow> text_frame recv list \<Rightarrow> bytes list \<Rightarrow> json list \<Rightarrow> exn option \<times> basic_rx_state" where
  "basic_twilio_receiver E twilio_ws q sq =
     basic_twilio_loop E twilio_ws \<lparr>inbuffer = [], audio_queue = q, streamsid_queue = sq\<rparr>"

section \<open>What a telephony message carries\<close>

text \<open>
  The event of a message, and the audio of a media event as the telephony protocol
  defines it: the base64 text under \<^verbatim>\<open>media.payload\<close>, decoded.
\<close>

definition event_of :: "json \<Rightarrow> json option" where
  "event_of msg =
     (case msg of
        JObj kvs \<Rightarrow> Some (case map_of kvs ''event'' of None \<Rightarrow> JNull | Some v \<Rightarrow> v)
      | _ \<Rightarrow> None)"

definition media_payload :: "env \<Rightarrow> json \<Rightarrow> bytes option" where
  "media_payload E msg =
     (case msg of
        JObj kvs \<Rightarrow>
         (case map_of kvs ''media'' of
            Some (JObj m) \<Rightarrow>
             (case map_of m ''payload'' of Some (JStr p) \<Rightarrow> b64decode E p | _ \<Rightarrow> None)
          | _ \<Rightarrow> None)
      | _ \<Rightarrow> None)"

text \<open>
  A message after which the receiver of \<^verbatim>\<open>f/main.py\<close> reads on: a media event
  whose payload decodes, or a JSON object with any event other than \<^verbatim>\<open>media\<close>
  and \<^verbatim>\<open>stop\<close>.
\<close>

definition passes :: "env \<Rightarrow> text_frame recv \<Rightarrow> bool" where
  "passes E x =
     (case x of
        Msg (Document msg) \<Rightarrow>
         (case event_of msg of
            None \<Rightarrow> False
          | Some ev \<Rightarrow>
             if ev = JStr ''media'' then media_payload E msg \<noteq> None else ev \<noteq> JStr ''stop'')
      | _ \<Rightarrow> False)"

definition payload_of :: "env \<Rightarrow> text_frame recv \<Rightarrow> bytes" where
  "payload_of E x =
     (case x of
        Msg (Document msg) \<Rightarrow>
         (if event_of msg = Some (JStr ''media'')
          then (case media_payload E msg of None \<Rightarrow> [] | Some b \<Rightarrow> b)
          else [])
      | _ \<Rightarrow> [])"

text \<open>
  A message the receiver of \<^verbatim>\<open>f/main.py\<close> cannot handle: text that is not JSON, a
  document that is not an object, or a media event without a payload that decodes.
\<close>

definition malformed :: "env \<Rightarrow> text_frame \<Rightarrow> bool" where
  "malformed E raw =
     (case raw of
        Malformed \<Rightarrow> True
      | Document msg \<Rightarrow>
         (case event_of msg of
            None \<Rightarrow> True
          | Some ev \<Rightarrow> ev = JStr ''media'' \<and> media_payload E msg = None))"

text \<open>
  For the receiver of \<^verbatim>\<open>main.py\<close>: the track of a media event, the audio it adds
  to the buffer (the payload of an event of the inbound track), and the messages after
  which it reads on.
\<close>

definition track_of :: "json \<Rightarrow> json option" where
  "track_of msg =
     (case msg of
        JObj kvs \<Rightarrow> (case map_of kvs ''media'' of Some (JObj m) \<Rightarrow> map_of m ''track'' | _ \<Rightarrow> None)
      | _ \<Rightarrow> None)"

definition inbound_audio :: "env \<Rightarrow> text_frame recv \<Rightarrow> bytes" where
  "inbound_audio E x =
     (case x of
        Msg (Document msg) \<Rightarrow>
         (if event_of msg = Some (JStr ''media'') \<and> track_of msg = Some (JStr ''inbound'')
          then (case media_payload E msg of None \<Rightarrow> [] | Some b \<Rightarrow> b)
          else [])
      | _ \<Rightarrow> [])"

definition basic_passes :: "env \<Rightarrow> text_frame recv \<Rightarrow> bool" where
  "basic_passes E x =
     (case x of
        Msg (Document (JObj kvs)) \<Rightarrow>
         (case map_of kvs ''event'' of
            None \<Rightarrow> False
          | Some ev \<Rightarrow>
             if ev = JStr ''start'' then map_of kvs ''start'' \<noteq> None \<and> map_of kvs ''streamsid'' \<noteq> None
             else if ev = JStr ''media''
               then media_payload E (JObj kvs) \<noteq> None \<and> track_of (JObj kvs) \<noteq> None
             else ev \<noteq> JStr ''stop'')
      | _ \<Rightarrow> False)"

section \<open>Connections\<close>

text \<open>
  A websocket as far as the relay acts on it: the path it was opened with, whether
  it is open, the frames sent on it so far, and how often \<^verbatim>\<open>close\<close> was called.
  Sending on a closed connection raises \<^verbatim>\<open>ConnectionClosed\<close>; \<^verbatim>\<open>close\<close>
  never raises. The three tasks of a session run concurrently; each is modelled by
  itself, as a function of the sequence of items it reads.
\<close>

record conn =
  path :: "string option"
  is_open :: bool
  sent :: "frame list"
  close_calls :: nat

definition ws_send :: "conn \<Rightarrow> frame \<Rightarrow> exn + conn" where
  "ws_send ws m = (if is_open ws then Inr (ws\<lparr>sent := sent ws @ [m]\<rparr>) else Inl ConnectionClosed)"

definition ws_close :: "conn \<Rightarrow> conn" where
  "ws_close ws = ws\<lparr>is_open := False, close_calls := close_calls ws + 1\<rparr>"

section \<open>Agent egress: \<^verbatim>\<open>sts_sender\<close> of \<^verbatim>\<open>f/main.py\<close>\<close>

text \<open>
  The task reads the items of the audio queue in the order they were put. It returns
  at the sentinel or at an exception, which it logs; when the queue holds no further
  item it waits.
\<close>

datatype task_end = Returned | Waiting

fun sts_sender :: "conn \<Rightarrow> bytes option list \<Rightarrow> task_end \<times> conn \<times> log_entry list" where
  "sts_sender ws_dg [] = (Waiting, ws_dg, [])"
| "sts_sender ws_dg (None # q) = (Returned, ws_close ws_dg, [])"
| "sts_sender ws_dg (Some chunk # q) =
     (case ws_send ws_dg (Binary chunk) of
        Inl exc \<Rightarrow> (Returned, ws_dg, [Sts_sender_error exc])
      | Inr ws_dg' \<Rightarrow> sts_sender ws_dg' q)"

section \<open>Strings and numerals\<close>

text \<open>
  The string methods the program calls, on ASCII: \<^verbatim>\<open>strip\<close> removes the white
  space of both ends, \<^verbatim>\<open>lower\<close> and \<^verbatim>\<open>upper\<close> change the case of the letters
  A to Z. Characters outside ASCII are left as they are, where Python also strips
  Unicode white space and maps the case of other letters: the model is the program on
  ASCII text.
\<close>

definition is_space :: "char \<Rightarrow> bool" where
  "is_space c = (of_char c \<in> {9, 10, 11, 12, 13, 28, 29, 30, 31, 32 :: nat})"

definition strip :: "string \<Rightarrow> string" where
  "strip s = rev (dropWhile is_space (rev (dropWhile is_space s)))"

definition lower :: "string \<Rightarrow> string" where
  "lower s = map (\<lambda>c. let n = of_char c :: nat in if 65 \<le> n \<and> n \<le> 90 then char_of (n + 32) else c) s"

definition upper :: "string \<Rightarrow> string" where
  "upper s = map (\<lambda>c. let n = of_char c :: nat in if 97 \<le> n \<and> n \<le> 122 then char_of (n - 32) else c) s"

definition en_dash :: string where
  "en_dash = [CHR 0xE2, CHR 0x80, CHR 0x93]"

definition em_dash :: string where
  "em_dash = [CHR 0xE2, CHR 0x80, CHR 0x94]"

text \<open>\<^verbatim>\<open>str(n)\<close> of an integer.\<close>

function show_nat :: "nat \<Rightarrow> string" where
  "show_nat n = (if n < 10 then [''0123456789'' ! n] else show_nat (n div 10) @ [''0123456789'' ! (n mod 10)])"
  by pat_completeness auto
termination
  by (relation "measure id") auto

declare show_nat.simps [simp del]

definition show_int :: "int \<Rightarrow> string" where
  "show_int i = (if i < 0 then CHR ''-'' # show_nat (nat (- i)) else show_nat (nat i))"

text \<open>
  A value inside an f-string: a string stands for itself, \<^verbatim>\<open>None\<close>, a truth value
  and an integer are printed as Python prints them, a list or a dict by the library.
\<close>

fun py_str :: "env \<Rightarrow> json \<Rightarrow> string" where
  "py_str E (JStr s) = s"
| "py_str E JNull = ''None''"
| "py_str E (JBool b) = (if b then ''True'' else ''False'')"
| "py_str E (JInt i) = show_int i"
| "py_str E v = py_repr E v"

text \<open>
  \<^verbatim>\<open>a == b\<close> on documents: a truth value equals the integer 0 or 1 it stands for,
  lists are compared element by element, and dicts key by key, whatever the order of
  their keys.
\<close>

fun py_eq :: "json \<Rightarrow> json \<Rightarrow> bool" where
  "py_eq JNull JNull = True"
| "py_eq (JBool a) (JBool b) = (a = b)"
| "py_eq (JBool a) (JInt j) = (j = (if a then 1 else 0))"
| "py_eq (JInt i) (JBool b) = (i = (if b then 1 else 0))"
| "py_eq (JInt i) (JInt j) = (i = j)"
| "py_eq (JStr s) (JStr t) = (s = t)"
| "py_eq (JArr xs) (JArr ys) = list_all2 py_eq xs ys"
| "py_eq (JObj a) (JObj b) =
     (length a = length b \<and>
      list_all (\<lambda>(k, v). list_ex (\<lambda>(k', v'). k' = k \<and> py_eq v v') b) a)"
| "py_eq _ _ = False"

section \<open>The complaint system: \<^verbatim>\<open>business_logic.py\<close>\<close>

definition TENANTS :: "(string \<times> (string \<times> string) list) list" where
  "TENANTS =
    [(''101'', [(''name'', ''Priya Sharma''), (''phone'', ''+447700900001''), (''email'', ''priya@example.com'')]),
     (''202'', [(''name'', ''James O'Brien''), (''phone'', ''+447700900002''), (''email'', ''james@example.com'')]),
     (''305'', [(''name'', ''Aisha Patel''), (''phone'', ''+447700900003''), (''email'', ''aisha@example.com'')]),
     (''410'', [(''name'', ''Carlos Mendez''), (''phone'', ''+447700900004''), (''email'', ''carlos@example.com'')])]"

text \<open>The category table: label, hours of the service level, responsible team, priority.\<close>

definition COMPLAINT_CONFIG :: "(string \<times> string \<times> int \<times> string \<times> int) list" where
  "COMPLAINT_CONFIG =
    [(''gas_leak'', ''Gas Leak'', 1, ''Emergency Response'', 1),
     (''fire'', ''Fire / Smoke'', 1, ''Emergency Response'', 1),
     (''flood'', ''Flooding / Burst Pipe'', 2, ''Emergency Response'', 1),
     (''structural_damage'', ''Structural Damage'', 2, ''Emergency Response'', 1),
     (''no_heat_winter'', ''No Heating (Winter)'', 4, ''Emergency Maintenance'', 2),
     (''power_outage'', ''Power Outage'', 4, ''Emergency Maintenance'', 2),
     (''security_breach'', ''Security / Break-in'', 2, ''Security Team'', 1),
     (''medical_emergency'', ''Medical Emergency'', 0, ''Emergency Services (999)'', 1),
     (''plumbing'', ''Plumbing Issue'', 24, ''Maintenance Team'', 3),
     (''electrical'', ''Electrical Issue'', 24, ''Maintenance Team'', 3),
     (''hvac'', ''Heating / AC Issue'', 24, ''Maintenance Team'', 3),
     (''appliance'', ''Appliance Fault'', 48, ''Maintenance Team'', 4),
     (''pest'', ''Pest Infestation'', 48, ''Pest Control Team'', 4),
     (''noise_complaint'', ''Noise Complaint'', 24, ''Property Management'', 3),
     (''neighbour_dispute'', ''Neighbour Dispute'', 48, ''Property Management'', 4),
     (''parking'', ''Parking Issue'', 48, ''Property Management'', 4),
     (''common_area'', ''Common Area Issue'', 48, ''Facilities Team'', 4),
     (''lift'', ''Lift / Elevator Issue'', 12, ''Maintenance Team'', 3),
     (''entry_system'', ''Entry System / Keys'', 12, ''Maintenance Team'', 3),
     (''rubbish'', ''Waste / Rubbish'', 72, ''Facilities Team'', 5),
     (''leaking'', ''Leak (non-urgent)'', 24, ''Maintenance Team'', 3),
     (''damp_mould'', ''Damp / Mould'', 72, ''Maintenance Team'', 4),
     (''other'', ''General Complaint'', 48, ''Property Management'', 4)]"

definition EMERGENCY_CATEGORIES :: "string set" where
  "EMERGENCY_CATEGORIES =
    {''gas_leak'',
     ''fire'',
     ''flood'',
     ''structural_damage'',
     ''no_heat_winter'',
     ''power_outage'',
     ''security_breach'',
     ''medical_emergency''}"

definition ASSURANCE_SCRIPTS :: "(string \<times> string) list" where
  "ASSURANCE_SCRIPTS =
    [(''gas_leak'',
      (''This is a critical emergency. Our emergency response team has been alerted ''
      @ ''right now and will be at your property within one hour. Please leave your flat ''
      @ ''immediately, do not touch any light switches or electrical devices, and wait ''
      @ ''outside. We will call you back within 15 minutes to confirm someone is on their ''
      @ ''way.'')),
     (''fire'',
      (''I've flagged this as a life-safety emergency. Please evacuate the building now ''
      @ ''and call 999 if you haven't already. Our emergency team is being dispatched and ''
      @ ''will coordinate with the fire service. You will receive a call back within 15 ''
      @ ''minutes.'')),
     (''flood'',
      (''A burst pipe or flooding is a critical emergency. Our emergency plumber has ''
      @ ''been paged and will arrive within two hours. If it's safe to do so, please turn ''
      @ ''off the water stopcock ''
      @ em_dash
      @ '' it's usually under the kitchen sink. Move valuables away from the water if ''
      @ ''possible. We'll call you within 30 minutes to confirm the engineer's ETA.'')),
     (''structural_damage'',
      (''Structural damage is being treated as an emergency. A qualified surveyor will ''
      @ ''inspect your property within two hours. Please avoid the affected area for your ''
      @ ''safety. We'll call you within 30 minutes with an update.'')),
     (''no_heat_winter'',
      (''No heating in winter is classified as urgent under housing law. An emergency ''
      @ ''heating engineer has been assigned and will contact you within four hours. If ''
      @ ''you have vulnerable individuals ''
      @ em_dash
      @ '' children, elderly, or anyone with a medical condition ''
      @ em_dash
      @ '' please let me note that now so we can escalate the priority further.'')),
     (''power_outage'',
      (''We've raised this as an urgent electrical fault. Our team will assess within ''
      @ ''four hours. Please avoid using candles for safety. If the outage affects the ''
      @ ''entire building, we're already contacting the utility provider. You'll receive ''
      @ ''a text update within the hour.'')),
     (''security_breach'',
      (''Your safety is the top priority. Our security team has been alerted and will ''
      @ ''respond within two hours. If you feel you are in immediate danger, please call ''
      @ ''999 right now. We will also review CCTV footage and arrange a security review ''
      @ ''of your entry points.'')),
     (''medical_emergency'',
      (''Please call 999 immediately ''
      @ em_dash
      @ '' this requires the ambulance service directly. I'm logging this on your account ''
      @ ''so our property manager is made aware and can provide any assistance needed. ''
      @ ''Please stay on the line with the emergency services.'')),
     (''plumbing'',
      (''Your plumbing complaint has been logged and assigned to our maintenance team. A ''
      @ ''qualified plumber will contact you within 24 hours to arrange a convenient time ''
      @ ''to visit. You'll also receive a confirmation text shortly. If the issue gets ''
      @ ''worse or causes flooding, please call us back immediately.'')),
     (''electrical'',
      (''Your electrical complaint has been raised with our maintenance team and will be ''
      @ ''assessed within 24 hours. An electrician will contact you to arrange access. In ''
      @ ''the meantime, please avoid using any faulty sockets or switches. If you notice ''
      @ ''sparking or smell burning, please call us back straight away.'')),
     (''hvac'',
      (''Your heating or air conditioning issue has been logged. Our HVAC team will be ''
      @ ''in touch within 24 hours to arrange a visit. If this becomes urgent ''
      @ em_dash
      @ '' particularly in cold weather ''
      @ em_dash
      @ '' call back and we'll escalate it immediately.'')),
     (''appliance'',
      (''Your appliance fault has been recorded and passed to our maintenance team. They ''
      @ ''will contact you within 48 hours to assess and repair or replace it. If it's a ''
      @ ''landlord-provided appliance, all costs will be covered by us.'')),
     (''pest'',
      (''A pest report has been raised and passed to our specialist pest control team. ''
      @ ''They will contact you within 48 hours to arrange an inspection and treatment. ''
      @ ''Please try not to disturb any nesting areas in the meantime.'')),
     (''noise_complaint'',
      (''Your noise complaint has been formally logged. Our property management team ''
      @ ''will investigate and contact the relevant party within 24 hours. If the noise ''
      @ ''is causing serious distress tonight, you can also contact your local council's ''
      @ ''noise service. We'll send you a written update within two working days.'')),
     (''neighbour_dispute'',
      (''Your concern has been noted and will be reviewed by our property manager. We ''
      @ ''take disputes seriously and aim to mediate fairly for all residents. A member ''
      @ ''of the team will contact you within 48 hours to discuss next steps.'')),
     (''parking'',
      (''Your parking complaint has been logged. Our facilities team will review the ''
      @ ''situation within 48 hours. If there is a vehicle blocking emergency access, ''
      @ ''please let me know now and we can escalate that as a priority.'')),
     (''common_area'',
      (''Your report about the common area has been sent to our facilities team, who aim ''
      @ ''to address communal issues within 48 hours. If it is a safety hazard, please ''
      @ ''say so now and we'll treat it as a priority.'')),
     (''lift'',
      (''The lift issue has been raised with our maintenance team as a priority fault. ''
      @ ''An engineer will be assigned within 12 hours. If you have accessibility needs ''
      @ ''and the lift is your only route of access, please tell me now and we'll arrange ''
      @ ''a priority visit today.'')),
     (''entry_system'',
      (''Your entry system or key issue has been logged. Our maintenance team will ''
      @ ''respond within 12 hours. If you are currently locked out, please stay on the ''
      @ ''line and I'll connect you with our out-of-hours locksmith service right now.'')),
     (''rubbish'',
      (''Your waste and rubbish complaint has been passed to our facilities team and ''
      @ ''will be addressed within 72 hours. Thank you for flagging this ''
      @ em_dash
      @ '' keeping communal areas clean is important for everyone in the building.'')),
     (''leaking'',
      (''The non-urgent leak has been logged and our plumbing team will contact you ''
      @ ''within 24 hours to arrange an inspection. If the leak worsens, please call back ''
      @ ''immediately so we can upgrade the priority.'')),
     (''damp_mould'',
      (''Damp and mould is a health concern we take very seriously. Your complaint has ''
      @ ''been logged and our maintenance team will carry out a full assessment within 72 ''
      @ ''hours. We will recommend the appropriate treatment and ensure this is resolved ''
      @ ''properly.'')),
     (''other'',
      (''Your complaint has been logged and a reference number has been created. Our ''
      @ ''property management team will review it within 48 hours and contact you with an ''
      @ ''update. If you feel this needs urgent attention, please let me know now.''))]"

text \<open>
  A ticket of the store \<^verbatim>\<open>COMPLAINTS\<close>: the dict that \<^verbatim>\<open>file_complaint\<close> builds,
  the only writer of the store, with the prefix \<open>t\<close> on the names of its keys. The
  store starts empty and keeps its tickets in the order of their insertion.
\<close>

record complaint =
  t_ticket_id :: string
  t_unit_number :: json
  t_tenant_name :: json
  t_contact_number :: json
  t_category :: string
  t_label :: string
  t_description :: json
  t_is_emergency :: bool
  t_priority :: int
  t_team :: string
  t_sla_hours :: int
  t_status :: string
  t_created_at :: string
  t_deadline :: string
  t_response_plan :: string

record world =
  COMPLAINTS :: "(string \<times> complaint) list"
  uuid_calls :: nat
  clock_reads :: nat

definition sla_to_words :: "int \<Rightarrow> string" where
  "sla_to_words hours =
     (if hours = 0 then ''immediate '' @ en_dash @ '' call 999 now''
      else if hours = 1 then ''within 1 hour''
      else if hours < 24 then ''within '' @ show_int hours @ '' hours''
      else (let days = hours div 24
            in ''within '' @ show_int days @ '' working day'' @ (if days > 1 then ''s'' else [])))"

definition build_response_plan :: "string \<Rightarrow> string \<Rightarrow> string \<Rightarrow> int \<Rightarrow> bool \<Rightarrow> string" where
  "build_response_plan category label team sla_hours is_emergency =
     (if category = ''medical_emergency'' then
        ''Step 1 '' @ en_dash @ '' Call 999 immediately for the ambulance service.\<newline>''
        @ ''Step 2 '' @ en_dash @ '' Your property manager has been notified and will follow up.\<newline>''
        @ ''Step 3 '' @ en_dash @ '' A welfare check will be arranged if needed.''
      else if is_emergency then
        ''Step 1 '' @ en_dash @ '' Your complaint has been flagged as an EMERGENCY with our ''
        @ team @ ''.\<newline>''
        @ ''Step 2 '' @ en_dash @ '' A specialist will be dispatched '' @ sla_to_words sla_hours
        @ ''.\<newline>''
        @ ''Step 3 '' @ en_dash @ '' You will receive a call-back within 15'' @ en_dash
        @ ''30 minutes to confirm the engineer's ETA.\<newline>''
        @ ''Step 4 '' @ en_dash
        @ '' Once the immediate risk is made safe, a follow-up inspection will be scheduled.\<newline>''
        @ ''Step 5 '' @ en_dash
        @ '' A written incident report will be sent to you within 24 hours of resolution.''
      else
        ''Step 1 '' @ en_dash @ '' Your '' @ label
        @ '' complaint has been logged and assigned to the '' @ team @ ''.\<newline>''
        @ ''Step 2 '' @ en_dash @ '' A team member will contact you '' @ sla_to_words sla_hours
        @ '' to arrange access or discuss next steps.\<newline>''
        @ ''Step 3 '' @ en_dash
        @ '' All repair work will be carried out by a qualified contractor at no cost to you.\<newline>''
        @ ''Step 4 '' @ en_dash
        @ '' You will receive SMS and email updates as the ticket progresses.\<newline>''
        @ ''Step 5 '' @ en_dash
        @ '' Once the work is complete, we will ask you to confirm the issue is resolved ''
        @ ''before closing the ticket.'')"

subsection \<open>Calling a capability\<close>

text \<open>
  \<^verbatim>\<open>fn(**arguments)\<close>: the arguments must be a dict whose keys are parameters of
  the function and cover the parameters without a default; anything else is a
  \<^verbatim>\<open>TypeError\<close> of the call. A capability takes the arguments and the state of the
  store and returns its result, or the exception it raises, and the new state.
\<close>

type_synonym capability = "json \<Rightarrow> world \<Rightarrow> (exn + json) \<times> world"

definition bind :: "string \<Rightarrow> string list \<Rightarrow> string list \<Rightarrow> json \<Rightarrow> exn + (string \<Rightarrow> json option)" where
  "bind f required optional arguments =
     (case arguments of
        JObj kvs \<Rightarrow>
         if list_all (\<lambda>k. k \<in> set (required @ optional)) (map fst kvs)
            \<and> list_all (\<lambda>k. k \<in> set (map fst kvs)) required
         then Inr (map_of kvs)
         else Inl (TypeError (Bad_arguments f arguments))
      | _ \<Rightarrow> Inl (TypeError (Bad_arguments f arguments)))"

text \<open>The value of a parameter: the argument, or the default \<^verbatim>\<open>None\<close>.\<close>

definition arg :: "(string \<Rightarrow> json option) \<Rightarrow> string \<Rightarrow> json" where
  "arg kw k = (case kw k of None \<Rightarrow> JNull | Some v \<Rightarrow> v)"

subsection \<open>The capabilities\<close>

definition not_verified :: "string \<Rightarrow> json" where
  "not_verified unit_number =
     JObj [(''verified'', JBool False),
           (''message'', JStr (''I couldn't find unit '' @ unit_number
              @ '' in our system. Could you double-check that number? If you've recently moved ''
              @ ''in, I can still take your complaint and we'll verify your details afterwards.''))]"

definition verify_tenant :: capability where
  "verify_tenant arguments w =
     (case bind ''verify_tenant'' [''unit_number''] [] arguments of
        Inl e \<Rightarrow> (Inl e, w)
      | Inr kw \<Rightarrow>
         (case arg kw ''unit_number'' of
            JStr unit_number \<Rightarrow>
             (case map_of TENANTS (strip unit_number) of
                None \<Rightarrow> (Inr (not_verified unit_number), w)
              | Some tenant \<Rightarrow>
                 if tenant = [] then (Inr (not_verified unit_number), w)
                 else (case map_of tenant ''name'' of
                         None \<Rightarrow> (Inl (KeyError ''name''), w)
                       | Some name \<Rightarrow>
                          (Inr (JObj [(''verified'', JBool True),
                                      (''unit_number'', JStr unit_number),
                                      (''tenant_name'', JStr name)]), w)))
          | v \<Rightarrow> (Inl (AttributeError v ''strip''), w)))"

definition file_complaint :: "env \<Rightarrow> capability" where
  "file_complaint E arguments w =
     (case bind ''file_complaint'' [''unit_number'', ''category'', ''description'', ''tenant_name'']
             [''contact_number''] arguments of
        Inl e \<Rightarrow> (Inl e, w)
      | Inr kw \<Rightarrow>
         (case arg kw ''category'' of
            JStr category0 \<Rightarrow>
             (let category1 = strip (lower category0);
                  category = (if category1 \<in> set (map fst COMPLAINT_CONFIG) then category1 else ''other'')
              in case map_of COMPLAINT_CONFIG category of
                   None \<Rightarrow> (Inl (KeyError category), w)
                 | Some (label, sla_hours, team, priority) \<Rightarrow>
                    (let is_emergency = (category \<in> EMERGENCY_CATEGORIES);
                         ticket_id = ''MAD-'' @ upper (take 8 (uuid4 E (uuid_calls w)));
                         now = utcnow E (clock_reads w);
                         deadline = (if sla_hours > 0 then now + sla_hours * 3600000000 else now);
                         response_plan = build_response_plan category label team sla_hours is_emergency;
                         ticket = \<lparr>t_ticket_id = ticket_id,
                                   t_unit_number = arg kw ''unit_number'',
                                   t_tenant_name = arg kw ''tenant_name'',
                                   t_contact_number = arg kw ''contact_number'',
                                   t_category = category,
                                   t_label = label,
                                   t_description = arg kw ''description'',
                                   t_is_emergency = is_emergency,
                                   t_priority = priority,
                                   t_team = team,
                                   t_sla_hours = sla_hours,
                                   t_status = ''open'',
                                   t_created_at = isoformat E now,
                                   t_deadline = isoformat E deadline,
                                   t_response_plan = response_plan\<rparr>;
                         w' = w\<lparr>COMPLAINTS := AList.update ticket_id ticket (COMPLAINTS w),
                                uuid_calls := uuid_calls w + 1,
                                clock_reads := clock_reads w + 1\<rparr>
                     in case (case map_of ASSURANCE_SCRIPTS category of
                                None \<Rightarrow> map_of ASSURANCE_SCRIPTS ''other''
                              | Some a \<Rightarrow> Some a) of
                          None \<Rightarrow> (Inl (KeyError ''other''), w')
                        | Some assurance \<Rightarrow>
                           (Inr (JObj [(''success'', JBool True),
                                       (''ticket_id'', JStr ticket_id),
                                       (''is_emergency'', JBool is_emergency),
                                       (''label'', JStr label),
                                       (''team'', JStr team),
                                       (''sla_hours'', JInt sla_hours),
                                       (''sla_description'', JStr (sla_to_words sla_hours)),
                                       (''response_plan'', JStr response_plan),
                                       (''assurance_message'', JStr assurance)]), w')))
          | v \<Rightarrow> (Inl (AttributeError v ''lower''), w)))"

definition check_complaint_status :: "env \<Rightarrow> capability" where
  "check_complaint_status E arguments w =
     (case bind ''check_complaint_status'' [''ticket_id''] [] arguments of
        Inl e \<Rightarrow> (Inl e, w)
      | Inr kw \<Rightarrow>
         (case arg kw ''ticket_id'' of
            JStr tid \<Rightarrow>
             (case map_of (COMPLAINTS w) (upper (strip tid)) of
                None \<Rightarrow>
                 (Inr (JObj [(''found'', JBool False),
                             (''message'', JStr (''I couldn't find ticket '' @ tid
                                @ ''. The reference starts with MAD- followed by eight characters. ''
                                @ ''Would you like to check whether you have the right number?''))]), w)
              | Some ticket \<Rightarrow>
                 (let now = utcnow E (clock_reads w);
                      w' = w\<lparr>clock_reads := clock_reads w + 1\<rparr>
                  in case fromisoformat E (t_deadline ticket) of
                       None \<Rightarrow> (Inl (ValueError (t_deadline ticket)), w')
                     | Some dl \<Rightarrow>
                        (Inr (JObj [(''found'', JBool True),
                                    (''ticket_id'', JStr tid),
                                    (''label'', JStr (t_label ticket)),
                                    (''status'', JStr (t_status ticket)),
                                    (''team'', JStr (t_team ticket)),
                                    (''created_at'', JStr (t_created_at ticket)),
                                    (''sla_description'', JStr (sla_to_words (t_sla_hours ticket))),
                                    (''hours_remaining'', hours_remaining E (dl - now)),
                                    (''response_plan'', JStr (t_response_plan ticket)),
                                    (''is_emergency'', JBool (t_is_emergency ticket))]), w')))
          | v \<Rightarrow> (Inl (AttributeError v ''strip''), w)))"

definition list_tenant_complaints :: "env \<Rightarrow> capability" where
  "list_tenant_complaints E arguments w =
     (case bind ''list_tenant_complaints'' [''unit_number''] [] arguments of
        Inl e \<Rightarrow> (Inl e, w)
      | Inr kw \<Rightarrow>
         (let wanted = arg kw ''unit_number'';
              tickets = [JObj [(''ticket_id'', JStr (t_ticket_id t)),
                               (''label'', JStr (t_label t)),
                               (''status'', JStr (t_status t)),
                               (''created_at'', JStr (t_created_at t)),
                               (''sla_description'', JStr (sla_to_words (t_sla_hours t)))].
                         t \<leftarrow> map snd (COMPLAINTS w), py_eq (t_unit_number t) wanted]
          in if tickets = [] then
               (Inr (JObj [(''found'', JBool False),
                           (''message'', JStr (''There are no logged complaints for unit ''
                              @ py_str E wanted @ ''.''))]), w)
             else
               (Inr (JObj [(''found'', JBool True),
                           (''unit_number'', wanted),
                           (''count'', JInt (int (length tickets))),
                           (''complaints'', JArr tickets)]), w)))"

definition categories_where :: "(string \<Rightarrow> bool) \<Rightarrow> json list" where
  "categories_where P =
     [JObj [(''category'', JStr k), (''label'', JStr lbl), (''sla'', JStr (sla_to_words sla))].
      (k, lbl, sla, tm, prio) \<leftarrow> COMPLAINT_CONFIG, P k]"

definition get_complaint_categories :: capability where
  "get_complaint_categories arguments w =
     (case bind ''get_complaint_categories'' [] [] arguments of
        Inl e \<Rightarrow> (Inl e, w)
      | Inr kw \<Rightarrow>
         (Inr (JObj [(''emergency_categories'', JArr (categories_where (\<lambda>k. k \<in> EMERGENCY_CATEGORIES))),
                     (''non_emergency_categories'', JArr (categories_where (\<lambda>k. k \<notin> EMERGENCY_CATEGORIES)))]),
          w))"

section \<open>The registry of capabilities: \<^verbatim>\<open>functions.py\<close>\<close>

definition agent_filler :: capability where
  "agent_filler arguments w =
     (case bind ''_agent_filler'' [''message''] [] arguments of
        Inl e \<Rightarrow> (Inl e, w)
      | Inr kw \<Rightarrow> (Inr (JObj [(''success'', JBool True), (''message'', arg kw ''message'')]), w))"

definition FUNCTION_MAP :: "env \<Rightarrow> (string \<times> capability) list" where
  "FUNCTION_MAP E =
     [(''agent_filler'', agent_filler),
      (''verify_tenant'', verify_tenant),
      (''get_complaint_categories'', get_complaint_categories),
      (''file_complaint'', file_complaint E),
      (''check_complaint_status'', check_complaint_status E),
      (''list_tenant_complaints'', list_tenant_complaints E)]"

text \<open>
  \<^verbatim>\<open>FUNCTION_MAP.get(name)\<close>: a list or a dict is not hashable, and no key of the
  registry equals a name that is not a string.
\<close>

fun registry_get :: "env \<Rightarrow> json \<Rightarrow> exn + capability option" where
  "registry_get E (JStr s) = Inr (map_of (FUNCTION_MAP E) s)"
| "registry_get E (JArr xs) = Inl (TypeError (Unhashable (JArr xs)))"
| "registry_get E (JObj kvs) = Inl (TypeError (Unhashable (JObj kvs)))"
| "registry_get E v = Inr None"

text \<open>
  The entry point. It returns the text \<^verbatim>\<open>json.dumps\<close> makes of the result, the new
  state of the store, and its log lines.
\<close>

definition failed :: "env \<Rightarrow> string \<Rightarrow> string" where
  "failed E msg = dumps E (JObj [(''success'', JBool False), (''error'', JStr msg)])"

definition execute_function :: "env \<Rightarrow> json \<Rightarrow> json \<Rightarrow> world \<Rightarrow> string \<times> world \<times> log_entry list" where
  "execute_function E name arguments w =
     (case registry_get E name of
        Inl exc \<Rightarrow> (failed E (exc_str E exc), w, [Function_called name arguments, Function_raised name exc])
      | Inr None \<Rightarrow> (failed E (''Unknown function: '' @ py_str E name), w, [Function_called name arguments])
      | Inr (Some fn) \<Rightarrow>
         (case fn arguments w of
            (Inl exc, w') \<Rightarrow>
              (failed E (exc_str E exc), w', [Function_called name arguments, Function_raised name exc])
          | (Inr result, w') \<Rightarrow>
              (dumps E result, w', [Function_called name arguments, Function_success name])))"

section \<open>Agent ingress and the dispatcher: \<^verbatim>\<open>sts_receiver\<close> of \<^verbatim>\<open>f/main.py\<close>\<close>

text \<open>
  What the task acts on: the two connections, the store of the complaint system, and
  the log.
\<close>

record relay_state =
  ws_dg :: conn
  ws_twilio :: conn
  store :: world
  relay_log :: "log_entry list"

text \<open>
  \<^verbatim>\<open>ws.path.split("/")[-1]\<close>, and the empty string when that raises (a connection
  without a path).
\<close>

definition stream_sid :: "conn \<Rightarrow> string" where
  "stream_sid ws =
     (case path ws of None \<Rightarrow> [] | Some p \<Rightarrow> rev (takeWhile (\<lambda>c. c \<noteq> CHR ''/'') (rev p)))"

text \<open>
  The handler of a \<^verbatim>\<open>FunctionCallRequest\<close>. It returns the exception that leaves
  it, if any.
\<close>

definition function_call_response :: "json \<Rightarrow> json \<Rightarrow> string \<Rightarrow> frame" where
  "function_call_response call_id name content =
     Text (Document (JObj [(''type'', JStr ''FunctionCallResponse''),
                           (''id'', call_id),
                           (''name'', name),
                           (''content'', JStr content)]))"

definition handle_function_call :: "env \<Rightarrow> json \<Rightarrow> relay_state \<Rightarrow> exn option \<times> relay_state" where
  "handle_function_call E req s =
     (case py_get req ''name'' of
        Inl e \<Rightarrow> (Some e, s)
      | Inr name \<Rightarrow>
     (case py_get req ''id'' of
        Inl e \<Rightarrow> (Some e, s)
      | Inr call_id \<Rightarrow>
     (case py_get_default req ''arguments'' (JObj []) of
        Inl e \<Rightarrow> (Some e, s)
      | Inr args \<Rightarrow>
     (let s1 = s\<lparr>relay_log := relay_log s @ [Tool_call name args]\<rparr>
      in case py_get_default req ''client_side'' (JBool True) of
           Inl e \<Rightarrow> (Some e, s1)
         | Inr client_side \<Rightarrow>
            if \<not> truthy client_side then
              (None, s1\<lparr>relay_log := relay_log s1 @ [Tool_call_server_side name]\<rparr>)
            else
              (let (content, w, lines) = execute_function E name args (store s1);
                   s2 = s1\<lparr>store := w, relay_log := relay_log s1 @ lines\<rparr>
               in case ws_send (ws_dg s2) (function_call_response call_id name content) of
                    Inl e \<Rightarrow> (Some e, s2)
                  | Inr ws \<Rightarrow>
                     (None, s2\<lparr>ws_dg := ws,
                                relay_log := relay_log s2 @ [Tool_response_sent name]\<rparr>))))))"

definition media_event :: "env \<Rightarrow> conn \<Rightarrow> bytes \<Rightarrow> frame" where
  "media_event E ws raw =
     Text (Document (JObj [(''event'', JStr ''media''),
                           (''streamSid'', JStr (stream_sid ws)),
                           (''media'', JObj [(''payload'', JStr (b64encode E raw))])]))"

definition clear_event :: "conn \<Rightarrow> frame" where
  "clear_event ws =
     Text (Document (JObj [(''event'', JStr ''clear''), (''streamSid'', JStr (stream_sid ws))]))"

text \<open>The body of \<^verbatim>\<open>async for raw in ws_dg\<close>.\<close>

definition on_agent_frame :: "env \<Rightarrow> frame \<Rightarrow> relay_state \<Rightarrow> control \<times> relay_state" where
  "on_agent_frame E raw s =
     (case raw of
        Binary audio \<Rightarrow>
         (case ws_send (ws_twilio s) (media_event E (ws_twilio s) audio) of
            Inl e \<Rightarrow> (Fault e, s)
          | Inr ws \<Rightarrow> (Next, s\<lparr>ws_twilio := ws\<rparr>))
      | Text Malformed \<Rightarrow> (Next, s)
      | Text (Document msg) \<Rightarrow>
         (case py_get msg ''type'' of
            Inl e \<Rightarrow> (Fault e, s)
          | Inr mtype \<Rightarrow>
             if mtype = JStr ''ConversationText'' then
               (case py_get_default msg ''role'' (JStr ''?'') of
                  Inl e \<Rightarrow> (Fault e, s)
                | Inr (JStr role) \<Rightarrow>
                   (case py_get_default msg ''content'' (JStr []) of
                      Inl e \<Rightarrow> (Fault e, s)
                    | Inr content \<Rightarrow>
                       (Next, s\<lparr>relay_log := relay_log s @ [Conversation_text (upper role) content]\<rparr>))
                | Inr v \<Rightarrow> (Fault (AttributeError v ''upper''), s))
             else if mtype = JStr ''FunctionCallRequest'' then
               (case handle_function_call E msg s of
                  (None, s') \<Rightarrow> (Next, s')
                | (Some e, s') \<Rightarrow> (Fault e, s'))
             else if mtype = JStr ''UserStartedSpeaking'' then
               (case ws_send (ws_twilio s) (clear_event (ws_twilio s)) of
                  Inl e \<Rightarrow> (Fault e, s)
                | Inr ws \<Rightarrow> (Next, s\<lparr>ws_twilio := ws\<rparr>))
             else if mtype \<in> {JStr ''Welcome'', JStr ''SettingsApplied'', JStr ''AgentThinking'',
                               JStr ''AgentAudioDone''} then
               (Next, s\<lparr>relay_log := relay_log s @ [Deepgram_event mtype]\<rparr>)
             else if mtype \<in> {JStr ''AgentError'', JStr ''AgentWarning''} then
               (Next, s\<lparr>relay_log := relay_log s @ [Deepgram_warning mtype msg]\<rparr>)
             else (Next, s)))"

fun sts_receiver_loop :: "env \<Rightarrow> frame recv list \<Rightarrow> relay_state \<Rightarrow> exn option \<times> relay_state" where
  "sts_receiver_loop E [] s = (None, s)"
| "sts_receiver_loop E (Abnormal_Close # rest) s = (Some ConnectionClosed, s)"
| "sts_receiver_loop E (Msg raw # rest) s =
     (case on_agent_frame E raw s of
        (Next, s') \<Rightarrow> sts_receiver_loop E rest s'
      | (Stop, s') \<Rightarrow> (None, s')
      | (Fault e, s') \<Rightarrow> (Some e, s'))"

text \<open>The task: the loop inside its two exception handlers.\<close>

definition sts_receiver :: "env \<Rightarrow> frame recv list \<Rightarrow> relay_state \<Rightarrow> relay_state" where
  "sts_receiver E frames_in s =
     (case sts_receiver_loop E frames_in s of
        (None, s') \<Rightarrow> s'
      | (Some ConnectionClosed, s') \<Rightarrow> s'\<lparr>relay_log := relay_log s' @ [Deepgram_disconnected]\<rparr>
      | (Some e, s') \<Rightarrow> s'\<lparr>relay_log := relay_log s' @ [Sts_receiver_error e]\<rparr>)"

section \<open>Agent ingress: \<^verbatim>\<open>sts_receiver\<close> and \<^verbatim>\<open>handle_barge_in\<close> of \<^verbatim>\<open>main.py\<close>\<close>

definition handle_barge_in :: "json \<Rightarrow> conn \<Rightarrow> json \<Rightarrow> exn + conn" where
  "handle_barge_in decoded twilio_ws streamsid =
     (case py_index decoded ''type'' of
        Inl e \<Rightarrow> Inl e
      | Inr t \<Rightarrow>
         if t = JStr ''UserStartedSpeaking''
         then ws_send twilio_ws
                (Text (Document (JObj [(''event'', JStr ''barge-in''), (''streamsid'', streamsid)])))
         else Inr twilio_ws)"

text \<open>The agent connection, which \<^verbatim>\<open>handle_text_message\<close> takes and does not use, is left out.\<close>

definition handle_text_message :: "json \<Rightarrow> conn \<Rightarrow> json \<Rightarrow> exn + conn" where
  "handle_text_message decoded twilio_ws streamsid = handle_barge_in decoded twilio_ws streamsid"

definition basic_media_message :: "env \<Rightarrow> json \<Rightarrow> bytes \<Rightarrow> frame" where
  "basic_media_message E streamsid raw_mulaw =
     Text (Document (JObj [(''event'', JStr ''media''),
                           (''streamsid'', streamsid),
                           (''media'', JObj [(''payload'', JStr (b64encode E raw_mulaw))])]))"

text \<open>
  The loop has no exception handler: the first exception leaves the task. The task
  first takes the stream id from its queue, and waits there while the queue is empty.
\<close>

fun basic_sts_receiver_loop :: "env \<Rightarrow> frame recv list \<Rightarrow> json \<Rightarrow> conn \<Rightarrow> exn option \<times> conn" where
  "basic_sts_receiver_loop E [] streamsid twilio_ws = (None, twilio_ws)"
| "basic_sts_receiver_loop E (Abnormal_Close # rest) streamsid twilio_ws =
     (Some ConnectionClosed, twilio_ws)"
| "basic_sts_receiver_loop E (Msg (Text Malformed) # rest) streamsid twilio_ws =
     (Some JSONDecodeError, twilio_ws)"
| "basic_sts_receiver_loop E (Msg (Text (Document decoded)) # rest) streamsid twilio_ws =
     (case handle_text_message decoded twilio_ws streamsid of
        Inl e \<Rightarrow> (Some e, twilio_ws)
      | Inr ws \<Rightarrow> basic_sts_receiver_loop E rest streamsid ws)"
| "basic_sts_receiver_loop E (Msg (Binary raw_mulaw) # rest) streamsid twilio_ws =
     (case ws_send twilio_ws (basic_media_message E streamsid raw_mulaw) of
        Inl e \<Rightarrow> (Some e, twilio_ws)
      | Inr ws \<Rightarrow> basic_sts_receiver_loop E rest streamsid ws)"

definition basic_sts_receiver ::
  "env \<Rightarrow> frame recv list \<Rightarrow> conn \<Rightarrow> json list \<Rightarrow> task_end \<times> exn option \<times> conn" where
  "basic_sts_receiver E sts_ws twilio_ws sid_queue =
     (case sid_queue of
        [] \<Rightarrow> (Waiting, None, twilio_ws)
      | streamsid # q \<Rightarrow>
         (let (r, ws) = basic_sts_receiver_loop E sts_ws streamsid twilio_ws
          in (Returned, r, ws)))"

section \<open>The fields of a request\<close>

text \<open>The value of a field of a JSON object, or a default when the object has no such field.\<close>

definition field :: "(string \<times> json) list \<Rightarrow> string \<Rightarrow> json \<Rightarrow> json" where
  "field kvs k d = (case map_of kvs k of None \<Rightarrow> d | Some v \<Rightarrow> v)"

section \<open>An environment for the examples\<close>

text \<open>
  Base64 after RFC 4648 (the library agrees with it on canonical text, and accepts
  more), decimal numerals, JSON text for documents whose strings need no escaping
  (printable ASCII without quotes and backslashes), and a fixed identifier and clock.
\<close>

definition b64_alphabet :: string where
  "b64_alphabet = ''ABCDEFGHIJKLMNOPQRSTUVWXYZabcdefghijklmnopqrstuvwxyz0123456789+/''"

fun position :: "'a list \<Rightarrow> 'a \<Rightarrow> nat option" where
  "position [] c = None"
| "position (x # xs) c = (if x = c then Some 0 else map_option Suc (position xs c))"

fun b64_bytes :: "nat list \<Rightarrow> bytes" where
  "b64_bytes (a # b # c # d # r) =
     [of_nat (a * 4 + b div 16), of_nat (b mod 16 * 16 + c div 4), of_nat (c mod 4 * 64 + d)]
     @ b64_bytes r"
| "b64_bytes [a, b, c] = [of_nat (a * 4 + b div 16), of_nat (b mod 16 * 16 + c div 4)]"
| "b64_bytes [a, b] = [of_nat (a * 4 + b div 16)]"
| "b64_bytes _ = []"

definition rfc_b64decode :: "string \<Rightarrow> bytes option" where
  "rfc_b64decode s =
     (let body = rev (dropWhile (\<lambda>c. c = CHR ''='') (rev s));
          digits = map (position b64_alphabet) body
      in if length s mod 4 = 0 \<and> length s - length body \<le> 2 \<and> None \<notin> set digits
         then Some (b64_bytes (map the digits)) else None)"

fun b64_chars :: "nat list \<Rightarrow> string" where
  "b64_chars (x # y # z # r) =
     [b64_alphabet ! (x div 4), b64_alphabet ! (x mod 4 * 16 + y div 16),
      b64_alphabet ! (y mod 16 * 4 + z div 64), b64_alphabet ! (z mod 64)] @ b64_chars r"
| "b64_chars [x, y] =
     [b64_alphabet ! (x div 4), b64_alphabet ! (x mod 4 * 16 + y div 16),
      b64_alphabet ! (y mod 16 * 4), CHR ''='']"
| "b64_chars [x] = [b64_alphabet ! (x div 4), b64_alphabet ! (x mod 4 * 16), CHR ''='', CHR ''='']"
| "b64_chars [] = []"

definition rfc_b64encode :: "bytes \<Rightarrow> string" where
  "rfc_b64encode b = b64_chars (map unat b)"

fun join :: "string \<Rightarrow> string list \<Rightarrow> string" where
  "join sep [] = []"
| "join sep [x] = x"
| "join sep (x # y # r) = x @ sep @ join sep (y # r)"

definition quoted :: "string \<Rightarrow> string" where
  "quoted s = [CHR 0x22] @ s @ [CHR 0x22]"

fun json_text :: "json \<Rightarrow> string" where
  "json_text JNull = ''null''"
| "json_text (JBool b) = (if b then ''true'' else ''false'')"
| "json_text (JInt i) = show_int i"
| "json_text (JStr s) = quoted s"
| "json_text (JArr xs) = ''['' @ join '', '' (map json_text xs) @ '']''"
| "json_text (JObj kvs) =
     ''{'' @ join '', '' (map (\<lambda>kv. quoted (fst kv) @ '': '' @ json_text (snd kv)) kvs) @ ''}''"

text \<open>No example looks at the clock, at the text of an exception or at a float.\<close>

definition example_env :: env where
  "example_env =
     \<lparr>b64decode = rfc_b64decode,
      b64encode = rfc_b64encode,
      dumps = json_text,
      py_repr = json_text,
      exc_str = (\<lambda>e. ''error''),
      uuid4 = (\<lambda>n. ''3f2b8c1a-9d4e-4f6a-8b7c-5e1d2a3b4c5d''),
      utcnow = (\<lambda>n. 0),
      isoformat = (\<lambda>t. ''1970-01-01T00:00:00''),
      fromisoformat = (\<lambda>s. Some 0),
      hours_remaining = (\<lambda>d. JInt 0)\<rparr>"

definition fresh_conn :: "string \<Rightarrow> conn" where
  "fresh_conn p = \<lparr>path = Some p, is_open = True, sent = [], close_calls = 0\<rparr>"

definition empty_world :: world where
  "empty_world = \<lparr>COMPLAINTS = [], uuid_calls = 0, clock_reads = 0\<rparr>"

definition example_start :: json where
  "example_start =
     JObj [(''event'', JStr ''start''), (''streamSid'', JStr ''MZ18ad3ab5a668481ce02b83e7395059f0'')]"

definition example_media :: "string \<Rightarrow> json" where
  "example_media p =
     JObj [(''event'', JStr ''media''),
           (''streamSid'', JStr ''MZ18ad3ab5a668481ce02b83e7395059f0''),
           (''media'', JObj [(''track'', JStr ''inbound''), (''payload'', JStr p)])]"

definition example_state :: relay_state where
  "example_state =
     \<lparr>ws_dg = fresh_conn ''/agent'',
      ws_twilio = fresh_conn ''/twilio/MZ18ad3ab5a668481ce02b83e7395059f0'',
      store = empty_world,
      relay_log = []\<rparr>"

definition example_request :: "string \<Rightarrow> string \<Rightarrow> json \<Rightarrow> (string \<times> json) list" where
  "example_request call_id name arguments =
     [(''type'', JStr ''FunctionCallRequest''), (''id'', JStr call_id), (''name'', JStr name),
      (''arguments'', arguments)]"

section \<open>The frame chunker\<close>

lemma BYTES_PER_CHUNK_eq: "BYTES_PER_CHUNK = 160"
  by (simp add: BYTES_PER_CHUNK_def SAMPLE_RATE_def CHUNK_MS_def)

text \<open>
  The inner loop: it appends frames of the configured length to the queue, and the
  frames followed by the buffer it leaves are the buffer it was given.
\<close>

lemma put_chunks_spec:
  "put_chunks b q = (b', q') \<Longrightarrow>
     \<exists>fs. q' = q @ map Some fs \<and> (\<forall>f\<in>set fs. length f = BYTES_PER_CHUNK)
          \<and> concat fs @ b' = b \<and> length b' < BYTES_PER_CHUNK"
proof (induction b q arbitrary: b' q' rule: put_chunks.induct)
  case (1 b q)
  show ?case
  proof (cases "BYTES_PER_CHUNK \<le> length b")
    case True
    with "1.prems"
    have "put_chunks (drop BYTES_PER_CHUNK b) (q @ [Some (take BYTES_PER_CHUNK b)]) = (b', q')"
      by (simp add: put_chunks.simps [of b q])
    from "1.IH" [OF True this] obtain fs where
      fs: "q' = (q @ [Some (take BYTES_PER_CHUNK b)]) @ map Some fs"
          "\<forall>f\<in>set fs. length f = BYTES_PER_CHUNK"
          "concat fs @ b' = drop BYTES_PER_CHUNK b" "length b' < BYTES_PER_CHUNK"
      by blast
    let ?fs = "take BYTES_PER_CHUNK b # fs"
    have "q' = q @ map Some ?fs" using fs(1) by simp
    moreover have "\<forall>f\<in>set ?fs. length f = BYTES_PER_CHUNK" using fs(2) True by simp
    moreover have "concat ?fs @ b' = b" using fs(3) by simp
    ultimately show ?thesis using fs(4) by blast
  next
    case False
    with "1.prems" have "b' = b" "q' = q" by (simp_all add: put_chunks.simps [of b q])
    then show ?thesis using False by (intro exI [of _ "[]"]) simp
  qed
qed

lemma media_payload_Some:
  assumes "media_payload E msg = Some chunk"
  obtains kvs m p where "msg = JObj kvs" "map_of kvs ''media'' = Some (JObj m)"
    "map_of m ''payload'' = Some (JStr p)" "b64decode E p = Some chunk"
proof -
  from assms obtain kvs where 1: "msg = JObj kvs"
    by (cases msg) (simp_all add: media_payload_def)
  with assms obtain v where 2: "map_of kvs ''media'' = Some v"
    by (cases "map_of kvs ''media''") (simp_all add: media_payload_def)
  with assms 1 obtain m where 3: "v = JObj m"
    by (cases v) (simp_all add: media_payload_def)
  with assms 1 2 obtain w where 4: "map_of m ''payload'' = Some w"
    by (cases "map_of m ''payload''") (simp_all add: media_payload_def)
  with assms 1 2 3 obtain p where 5: "w = JStr p"
    by (cases w) (simp_all add: media_payload_def)
  with assms 1 2 3 4 have "b64decode E p = Some chunk"
    by (simp add: media_payload_def)
  with 1 2 3 4 5 that show thesis by blast
qed

lemma on_media_ok:
  assumes "event_of msg = Some (JStr ''media'')" "media_payload E msg = Some chunk"
  shows "on_twilio_message E (Document msg) s =
           (let (b, q) = put_chunks (buf s @ chunk) (queue s) in (Next, s\<lparr>buf := b, queue := q\<rparr>))"
proof -
  from assms(2) obtain kvs m p where *: "msg = JObj kvs" "map_of kvs ''media'' = Some (JObj m)"
    "map_of m ''payload'' = Some (JStr p)" "b64decode E p = Some chunk"
    by (rule media_payload_Some)
  from assms(1) * have "py_get msg ''event'' = Inr (JStr ''media'')"
    by (simp add: event_of_def)
  with * show ?thesis
    by (simp add: on_twilio_message_def)
qed

lemma on_media_fault:
  assumes "event_of msg = Some (JStr ''media'')" "media_payload E msg = None"
  shows "\<exists>e. e \<noteq> ConnectionClosed \<and> on_twilio_message E (Document msg) s = (Fault e, s)"
proof -
  from assms(1) obtain kvs where 1: "msg = JObj kvs"
    by (cases msg) (simp_all add: event_of_def)
  with assms(1) have ev: "py_get msg ''event'' = Inr (JStr ''media'')"
    by (simp add: event_of_def)
  show ?thesis
  proof (cases "map_of kvs ''media''")
    case None
    with 1 ev show ?thesis by (simp add: on_twilio_message_def)
  next
    case (Some v)
    note v = this
    show ?thesis
    proof (cases "\<exists>m. v = JObj m")
      case False
      then have "py_index v ''payload'' = Inl (TypeError (Not_subscriptable v))"
        by (cases v) simp_all
      with 1 ev v show ?thesis by (simp add: on_twilio_message_def)
    next
      case True
      then obtain m where m: "v = JObj m" by blast
      show ?thesis
      proof (cases "map_of m ''payload''")
        case None
        with 1 ev v m show ?thesis by (simp add: on_twilio_message_def)
      next
        case (Some w)
        note w = this
        show ?thesis
        proof (cases "\<exists>p. w = JStr p")
          case False
          then have "py_b64decode E w = Inl (TypeError (Not_bytes_like w))"
            by (cases w) simp_all
          with 1 ev v m w show ?thesis by (simp add: on_twilio_message_def)
        next
          case True
          then obtain p where p: "w = JStr p" by blast
          with assms(2) 1 v m w have "b64decode E p = None"
            by (simp add: media_payload_def)
          with 1 ev v m w p show ?thesis by (simp add: on_twilio_message_def)
        qed
      qed
    qed
  qed
qed

lemma on_other_event:
  assumes "event_of msg \<noteq> Some (JStr ''media'')" "on_twilio_message E (Document msg) s = (c, s')"
  shows "queue s' = queue s \<and> buf s' = buf s \<and> (c = Next \<longleftrightarrow> passes E (Msg (Document msg)))"
proof (cases msg)
  case (JObj kvs)
  with assms show ?thesis
    by (auto simp: on_twilio_message_def event_of_def passes_def split: if_splits)
qed (use assms in \<open>auto simp: on_twilio_message_def event_of_def passes_def\<close>)

text \<open>One message: what the body of the loop adds to the queue and leaves in the buffer.\<close>

lemma on_twilio_message_chunks:
  assumes "on_twilio_message E raw s = (c, s')"
  shows "\<exists>fs. queue s' = queue s @ map Some fs \<and> (\<forall>f\<in>set fs. length f = BYTES_PER_CHUNK)
          \<and> concat fs @ buf s' = buf s @ (if c = Next then payload_of E (Msg raw) else [])
          \<and> (length (buf s) < BYTES_PER_CHUNK \<longrightarrow> length (buf s') < BYTES_PER_CHUNK)
          \<and> (c = Next \<longleftrightarrow> passes E (Msg raw))"
proof (cases raw)
  case Malformed
  with assms have "s' = s" "c \<noteq> Next" by (auto simp: on_twilio_message_def)
  with Malformed show ?thesis by (intro exI [of _ "[]"]) (simp add: passes_def)
next
  case (Document msg)
  show ?thesis
  proof (cases "event_of msg = Some (JStr ''media'')")
    case False
    from on_other_event [OF False assms [unfolded Document]] Document False
    show ?thesis by (intro exI [of _ "[]"]) (auto simp: payload_of_def)
  next
    case True
    note ev = this
    show ?thesis
    proof (cases "media_payload E msg")
      case None
      from on_media_fault [OF ev None, of s] assms Document have "s' = s" "c \<noteq> Next" by auto
      with Document ev None show ?thesis by (intro exI [of _ "[]"]) (simp add: passes_def)
    next
      case (Some chunk)
      obtain b q where bq: "put_chunks (buf s @ chunk) (queue s) = (b, q)" by force
      with on_media_ok [OF ev Some, of s] assms Document
      have r: "c = Next" "s' = s\<lparr>buf := b, queue := q\<rparr>" by auto
      from put_chunks_spec [OF bq] obtain fs where
        "q = queue s @ map Some fs" "\<forall>f\<in>set fs. length f = BYTES_PER_CHUNK"
        "concat fs @ b = buf s @ chunk" "length b < BYTES_PER_CHUNK" by blast
      with r Document ev Some show ?thesis
        by (intro exI [of _ fs]) (simp add: passes_def payload_of_def)
    qed
  qed
qed

text \<open>The loop, from any state whose buffer is shorter than a frame.\<close>

lemma twilio_loop_chunks:
  "twilio_loop E ws s = (r, s') \<Longrightarrow> length (buf s) < BYTES_PER_CHUNK \<Longrightarrow>
     \<exists>fs. queue s' = queue s @ map Some fs \<and> (\<forall>f\<in>set fs. length f = BYTES_PER_CHUNK)
        \<and> length (buf s') < BYTES_PER_CHUNK
        \<and> (list_all (passes E) ws \<longrightarrow>
             r = None \<and> concat fs @ buf s' = buf s @ concat (map (payload_of E) ws))"
proof (induction ws arbitrary: s)
  case Nil
  then show ?case by (intro exI [of _ "[]"]) auto
next
  case (Cons x ws)
  show ?case
  proof (cases x)
    case Abnormal_Close
    with Cons.prems show ?thesis by (intro exI [of _ "[]"]) (auto simp: passes_def)
  next
    case (Msg raw)
    obtain c s1 where step: "on_twilio_message E raw s = (c, s1)" by force
    from on_twilio_message_chunks [OF step] obtain fs1 where 1:
      "queue s1 = queue s @ map Some fs1" "\<forall>f\<in>set fs1. length f = BYTES_PER_CHUNK"
      "concat fs1 @ buf s1 = buf s @ (if c = Next then payload_of E (Msg raw) else [])"
      "length (buf s1) < BYTES_PER_CHUNK" "c = Next \<longleftrightarrow> passes E (Msg raw)"
      using Cons.prems(2) by blast
    show ?thesis
    proof (cases "c = Next")
      case True
      with Cons.prems(1) Msg step have "twilio_loop E ws s1 = (r, s')" by simp
      from Cons.IH [OF this 1(4)] obtain fs2 where 2:
        "queue s' = queue s1 @ map Some fs2" "\<forall>f\<in>set fs2. length f = BYTES_PER_CHUNK"
        "length (buf s') < BYTES_PER_CHUNK"
        "list_all (passes E) ws \<longrightarrow>
           r = None \<and> concat fs2 @ buf s' = buf s1 @ concat (map (payload_of E) ws)"
        by blast
      have "list_all (passes E) (x # ws) \<longrightarrow>
              r = None \<and> concat (fs1 @ fs2) @ buf s' = buf s @ concat (map (payload_of E) (x # ws))"
      proof
        assume "list_all (passes E) (x # ws)"
        then have "list_all (passes E) ws" by simp
        with 2(4) have "r = None" "concat fs2 @ buf s' = buf s1 @ concat (map (payload_of E) ws)"
          by simp_all
        moreover have "concat fs1 @ buf s1 = buf s @ payload_of E x" using 1(3) True Msg by simp
        ultimately have "r = None"
          "concat fs1 @ concat fs2 @ buf s' = (concat fs1 @ buf s1) @ concat (map (payload_of E) ws)"
          "concat fs1 @ buf s1 = buf s @ payload_of E x"
          by simp_all
        then show "r = None \<and> concat (fs1 @ fs2) @ buf s' = buf s @ concat (map (payload_of E) (x # ws))"
          by simp
      qed
      with 1 2 show ?thesis by (intro exI [of _ "fs1 @ fs2"]) auto
    next
      case False
      with Cons.prems(1) Msg step have "s' = s1" by (cases c) auto
      with 1 False Msg show ?thesis by (intro exI [of _ fs1]) auto
    qed
  qed
qed

lemma twilio_receiver_queue:
  "twilio_loop E ws (rx_init q) = (r, s) \<Longrightarrow> queue (twilio_receiver E ws q) = queue s @ [None]"
  by (auto simp: twilio_receiver_def split: option.splits exn.splits)

lemma twilio_receiver_puts:
  "\<exists>fs. queue (twilio_receiver E ws q) = q @ map Some fs @ [None]"
proof -
  obtain r s where loop: "twilio_loop E ws (rx_init q) = (r, s)" by force
  have "length (buf (rx_init q)) < BYTES_PER_CHUNK"
    by (simp add: rx_init_def BYTES_PER_CHUNK_eq)
  from twilio_loop_chunks [OF loop this] obtain fs where "queue s = queue (rx_init q) @ map Some fs"
    by blast
  with twilio_receiver_queue [OF loop] show ?thesis
    by (intro exI [of _ fs]) (simp add: rx_init_def)
qed

text \<open>
  Claim C1. Whatever the receiver of \<^verbatim>\<open>f/main.py\<close> reads from the telephony
  connection, every frame it puts on the audio queue has exactly
  \<open>BYTES_PER_CHUNK = SAMPLE_RATE * CHUNK_MS / 1000\<close> bytes, so no short frame is
  put; the buffer it is left with is shorter than a frame; the task puts these frames
  and then the sentinel; and when it reads every message (none is malformed, none is
  a stop event), the frames followed by the buffer are the decoded payloads of the
  media events, in their order.
\<close>

theorem twilio_receiver_chunks:
  assumes "twilio_loop E ws (rx_init q) = (r, s)"
  shows "\<exists>fs. queue s = q @ map Some fs
          \<and> BYTES_PER_CHUNK = nat (SAMPLE_RATE * CHUNK_MS div 1000)
          \<and> (\<forall>f\<in>set fs. length f = BYTES_PER_CHUNK)
          \<and> length (buf s) < BYTES_PER_CHUNK
          \<and> (list_all (passes E) ws \<longrightarrow> concat fs @ buf s = concat (map (payload_of E) ws))
          \<and> queue (twilio_receiver E ws q) = q @ map Some fs @ [None]"
proof -
  have "length (buf (rx_init q)) < BYTES_PER_CHUNK"
    by (simp add: rx_init_def BYTES_PER_CHUNK_eq)
  from twilio_loop_chunks [OF assms this] obtain fs where
    "queue s = queue (rx_init q) @ map Some fs" "\<forall>f\<in>set fs. length f = BYTES_PER_CHUNK"
    "length (buf s) < BYTES_PER_CHUNK"
    "list_all (passes E) ws \<longrightarrow>
       r = None \<and> concat fs @ buf s = buf (rx_init q) @ concat (map (payload_of E) ws)"
    by blast
  with twilio_receiver_queue [OF assms] show ?thesis
    by (intro exI [of _ fs]) (simp add: rx_init_def BYTES_PER_CHUNK_def)
qed

theorem twilio_receiver_chunks_witness:
  "twilio_loop example_env
     [Msg (Document example_start),
      Msg (Document (example_media (concat (replicate 54 ''AAAA'')))),
      Msg (Document (example_media ''AAAAAA==''))] (rx_init [])
   = (None, \<lparr>buf = replicate 6 0, queue = [Some (replicate 160 0)],
             rx_log = [Twilio_stream_started (JStr ''MZ18ad3ab5a668481ce02b83e7395059f0'')]\<rparr>)
   \<and> (\<exists>fs. [Some (replicate 160 0)] = [] @ map Some fs
          \<and> BYTES_PER_CHUNK = nat (SAMPLE_RATE * CHUNK_MS div 1000)
          \<and> (\<forall>f\<in>set fs. length f = BYTES_PER_CHUNK)
          \<and> length (replicate 6 (0 :: 8 word)) < BYTES_PER_CHUNK
          \<and> concat fs @ replicate 6 0 = replicate 166 0
          \<and> queue (twilio_receiver example_env
               [Msg (Document example_start),
                Msg (Document (example_media (concat (replicate 54 ''AAAA'')))),
                Msg (Document (example_media ''AAAAAA==''))] [])
             = [] @ map Some fs @ [None])"
proof -
  let ?ws = "[Msg (Document example_start),
      Msg (Document (example_media (concat (replicate 54 ''AAAA'')))),
      Msg (Document (example_media ''AAAAAA==''))]"
  have h: "twilio_loop example_env ?ws (rx_init [])
     = (None, \<lparr>buf = replicate 6 0, queue = [Some (replicate 160 0)],
             rx_log = [Twilio_stream_started (JStr ''MZ18ad3ab5a668481ce02b83e7395059f0'')]\<rparr>)"
    by code_simp
  have p: "list_all (passes example_env) ?ws" by code_simp
  have c: "concat (map (payload_of example_env) ?ws) = replicate 166 0" by code_simp
  from twilio_receiver_chunks [OF h] p c show ?thesis
    using h by simp
qed

section \<open>The frame chunker of \<^verbatim>\<open>main.py\<close>\<close>

lemma basic_put_chunks_spec:
  "basic_put_chunks b q = (b', q') \<Longrightarrow>
     \<exists>fs. q' = q @ fs \<and> (\<forall>f\<in>set fs. length f = BUFFER_SIZE)
          \<and> concat fs @ b' = b \<and> length b' < BUFFER_SIZE"
proof (induction b q arbitrary: b' q' rule: basic_put_chunks.induct)
  case (1 b q)
  show ?case
  proof (cases "BUFFER_SIZE \<le> length b")
    case True
    with "1.prems"
    have "basic_put_chunks (drop BUFFER_SIZE b) (q @ [take BUFFER_SIZE b]) = (b', q')"
      by (simp add: basic_put_chunks.simps [of b q])
    from "1.IH" [OF True this] obtain fs where
      fs: "q' = (q @ [take BUFFER_SIZE b]) @ fs" "\<forall>f\<in>set fs. length f = BUFFER_SIZE"
          "concat fs @ b' = drop BUFFER_SIZE b" "length b' < BUFFER_SIZE"
      by blast
    let ?fs = "take BUFFER_SIZE b # fs"
    have "q' = q @ ?fs" using fs(1) by simp
    moreover have "\<forall>f\<in>set ?fs. length f = BUFFER_SIZE" using fs(2) True by simp
    moreover have "concat ?fs @ b' = b" using fs(3) by simp
    ultimately show ?thesis using fs(4) by blast
  next
    case False
    with "1.prems" have "b' = b" "q' = q" by (simp_all add: basic_put_chunks.simps [of b q])
    then show ?thesis using False by (intro exI [of _ "[]"]) simp
  qed
qed

lemma basic_drain_spec:
  assumes "basic_drain s = (c, s')"
  shows "c = Next \<and> (\<exists>fs. audio_queue s' = audio_queue s @ fs \<and> (\<forall>f\<in>set fs. length f = BUFFER_SIZE)
          \<and> concat fs @ inbuffer s' = inbuffer s \<and> length (inbuffer s') < BUFFER_SIZE)"
proof -
  obtain b q where bq: "basic_put_chunks (inbuffer s) (audio_queue s) = (b, q)" by force
  with assms have "c = Next" "s' = s\<lparr>inbuffer := b, audio_queue := q\<rparr>"
    by (auto simp: basic_drain_def)
  with basic_put_chunks_spec [OF bq] show ?thesis by auto
qed

text \<open>What the body of the loop hands to the inner loop, if it reaches it.\<close>

lemma basic_on_twilio_message_cases:
  assumes "basic_on_twilio_message E raw s = (c, s')"
  shows "(s' = s \<and> inbound_audio E (Msg raw) = [] \<and> (c = Next \<longleftrightarrow> basic_passes E (Msg raw))
           \<and> (c = Next \<longrightarrow> (\<exists>kvs. raw = Document (JObj kvs) \<and> map_of kvs ''event'' = Some (JStr ''connected''))))
       \<or> (basic_passes E (Msg raw) \<and>
           (\<exists>s0. basic_drain s0 = (c, s') \<and> audio_queue s0 = audio_queue s
                \<and> inbuffer s0 = inbuffer s @ inbound_audio E (Msg raw)))"
proof (cases raw)
  case Malformed
  with assms show ?thesis
    by (auto simp: basic_on_twilio_message_def inbound_audio_def basic_passes_def)
next
  case (Document data)
  show ?thesis
  proof (cases "\<exists>kvs ev. data = JObj kvs \<and> map_of kvs ''event'' = Some ev")
    case False
    then have "\<exists>e. py_index data ''event'' = Inl e"
      by (cases data) (auto split: option.splits)
    moreover from False have "\<not> basic_passes E (Msg raw)" "event_of data \<noteq> Some (JStr ''media'')"
      using Document by (cases data; auto simp: basic_passes_def event_of_def split: option.splits)+
    ultimately show ?thesis using assms Document
      by (auto simp: basic_on_twilio_message_def inbound_audio_def)
  next
    case True
    then obtain kvs ev where d: "data = JObj kvs" and ev: "map_of kvs ''event'' = Some ev" by blast
    then have idx: "py_index data ''event'' = Inr ev" by simp
    consider (start) "ev = JStr ''start''" | (connected) "ev = JStr ''connected''"
      | (media) "ev = JStr ''media''" | (stop) "ev = JStr ''stop''"
      | (other) "ev \<noteq> JStr ''start''" "ev \<noteq> JStr ''connected''" "ev \<noteq> JStr ''media''" "ev \<noteq> JStr ''stop''"
      by blast
    then show ?thesis
    proof cases
      case start
      have na: "inbound_audio E (Msg raw) = []"
        using Document d ev start by (simp add: inbound_audio_def event_of_def)
      show ?thesis
      proof (cases "map_of kvs ''start'' \<noteq> None \<and> map_of kvs ''streamsid'' \<noteq> None")
        case True
        then obtain a b where ab: "map_of kvs ''start'' = Some a" "map_of kvs ''streamsid'' = Some b" by auto
        with assms Document d ev start
        have "basic_drain (s\<lparr>streamsid_queue := streamsid_queue s @ [b]\<rparr>) = (c, s')"
          by (simp add: basic_on_twilio_message_def)
        moreover have "basic_passes E (Msg raw)"
          using Document d ev start ab by (simp add: basic_passes_def)
        ultimately show ?thesis using na by (intro disjI2) auto
      next
        case False
        with assms Document d ev start have "s' = s" "c \<noteq> Next"
          by (auto simp: basic_on_twilio_message_def split: option.splits)
        moreover have "\<not> basic_passes E (Msg raw)"
          using Document d ev start False by (simp add: basic_passes_def)
        ultimately show ?thesis using na by simp
      qed
    next
      case connected
      with assms Document d ev have "s' = s" "c = Next"
        by (auto simp: basic_on_twilio_message_def)
      moreover have "basic_passes E (Msg raw)" "inbound_audio E (Msg raw) = []"
        using Document d ev connected by (simp_all add: basic_passes_def inbound_audio_def event_of_def)
      ultimately show ?thesis using Document d ev connected by simp
    next
      case stop
      with assms Document d ev have "s' = s" "c \<noteq> Next"
        by (auto simp: basic_on_twilio_message_def)
      moreover have "\<not> basic_passes E (Msg raw)" "inbound_audio E (Msg raw) = []"
        using Document d ev stop by (simp_all add: basic_passes_def inbound_audio_def event_of_def)
      ultimately show ?thesis by simp
    next
      case other
      with assms Document d ev have "basic_drain s = (c, s')"
        by (simp add: basic_on_twilio_message_def)
      moreover have "basic_passes E (Msg raw)" "inbound_audio E (Msg raw) = []"
        using Document d ev other by (simp_all add: basic_passes_def inbound_audio_def event_of_def)
      ultimately show ?thesis by (intro disjI2) auto
    next
      case media
      have evo: "event_of data = Some (JStr ''media'')" using d ev media by (simp add: event_of_def)
      show ?thesis
      proof (cases "media_payload E data")
        case (Some chunk)
        from Some obtain kvs' m p where k: "data = JObj kvs'"
          and m0: "map_of kvs' ''media'' = Some (JObj m)"
          and mp: "map_of m ''payload'' = Some (JStr p)" "b64decode E p = Some chunk"
          by (rule media_payload_Some)
        from k d have "kvs' = kvs" by simp
        with m0 mp have
          *: "map_of kvs ''media'' = Some (JObj m)" "map_of m ''payload'' = Some (JStr p)"
             "b64decode E p = Some chunk" by simp_all
        show ?thesis
        proof (cases "map_of m ''track''")
          case None
          with assms Document d ev media * have "s' = s" "c \<noteq> Next"
            by (auto simp: basic_on_twilio_message_def)
          moreover have "\<not> basic_passes E (Msg raw)" "inbound_audio E (Msg raw) = []"
            using Document d ev media * None
            by (simp_all add: basic_passes_def inbound_audio_def track_of_def)
          ultimately show ?thesis by simp
        next
          case (Some track)
          have p: "basic_passes E (Msg raw)"
            using Document d ev media * Some \<open>media_payload E data = Some chunk\<close>
            by (simp add: basic_passes_def track_of_def)
          show ?thesis
          proof (cases "track = JStr ''inbound''")
            case True
            with assms Document d ev media * Some
            have "basic_drain (s\<lparr>inbuffer := inbuffer s @ chunk\<rparr>) = (c, s')"
              by (simp add: basic_on_twilio_message_def)
            moreover have "inbound_audio E (Msg raw) = chunk"
              using Document d evo * Some True \<open>media_payload E data = Some chunk\<close>
              by (simp add: inbound_audio_def track_of_def)
            ultimately show ?thesis using p by (intro disjI2) auto
          next
            case False
            with assms Document d ev media * Some
            have "basic_drain s = (c, s')"
              by (simp add: basic_on_twilio_message_def)
            moreover have "inbound_audio E (Msg raw) = []"
              using Document d evo * Some False
              by (simp add: inbound_audio_def track_of_def)
            ultimately show ?thesis using p by (intro disjI2) auto
          qed
        qed
      next
        case None
        have "\<exists>e. (case py_index data ''media'' of
                Inl e \<Rightarrow> Inl e
              | Inr md \<Rightarrow> (case py_index md ''payload'' of
                   Inl e \<Rightarrow> Inl e | Inr pl \<Rightarrow> py_b64decode E pl)) = Inl e"
        proof (cases "map_of kvs ''media''")
          case None
          with d show ?thesis by simp
        next
          case (Some v)
          note v = this
          show ?thesis
          proof (cases "\<exists>m. v = JObj m")
            case False
            then have "py_index v ''payload'' = Inl (TypeError (Not_subscriptable v))"
              by (cases v) simp_all
            with d v show ?thesis by simp
          next
            case True
            then obtain m where m: "v = JObj m" by blast
            show ?thesis
            proof (cases "map_of m ''payload''")
              case None
              with d v m show ?thesis by simp
            next
              case (Some w)
              note w = this
              show ?thesis
              proof (cases "\<exists>p. w = JStr p")
                case False
                then have "py_b64decode E w = Inl (TypeError (Not_bytes_like w))"
                  by (cases w) simp_all
                with d v m w show ?thesis by simp
              next
                case True
                then obtain p where p: "w = JStr p" by blast
                with \<open>media_payload E data = None\<close> d v m w have "b64decode E p = None"
                  by (simp add: media_payload_def)
                with d v m w p show ?thesis by simp
              qed
            qed
          qed
        qed
        then obtain e where "(case py_index data ''media'' of
                Inl e \<Rightarrow> Inl e
              | Inr md \<Rightarrow> (case py_index md ''payload'' of
                   Inl e \<Rightarrow> Inl e | Inr pl \<Rightarrow> py_b64decode E pl)) = Inl e" by blast
        with assms Document idx media have "s' = s" "c \<noteq> Next"
          by (auto simp: basic_on_twilio_message_def split: sum.splits)
        moreover have "\<not> basic_passes E (Msg raw)" "inbound_audio E (Msg raw) = []"
          using Document d ev media None evo by (simp_all add: basic_passes_def inbound_audio_def)
        ultimately show ?thesis by simp
      qed
    qed
  qed
qed

lemma basic_on_twilio_message_chunks:
  assumes "basic_on_twilio_message E raw s = (c, s')" and "length (inbuffer s) < BUFFER_SIZE"
  shows "\<exists>fs. audio_queue s' = audio_queue s @ fs \<and> (\<forall>f\<in>set fs. length f = BUFFER_SIZE)
          \<and> concat fs @ inbuffer s' = inbuffer s @ (if c = Next then inbound_audio E (Msg raw) else [])
          \<and> length (inbuffer s') < BUFFER_SIZE
          \<and> (c = Next \<longleftrightarrow> basic_passes E (Msg raw))"
proof -
  from basic_on_twilio_message_cases [OF assms(1)]
  consider (same) "s' = s" "inbound_audio E (Msg raw) = []" "c = Next \<longleftrightarrow> basic_passes E (Msg raw)"
    | (drain) s0 where "basic_passes E (Msg raw)" "basic_drain s0 = (c, s')"
        "audio_queue s0 = audio_queue s" "inbuffer s0 = inbuffer s @ inbound_audio E (Msg raw)"
    by blast
  then show ?thesis
  proof cases
    case same
    with assms(2) show ?thesis by (intro exI [of _ "[]"]) simp
  next
    case drain
    from basic_drain_spec [OF drain(2)] obtain fs where
      "c = Next" "audio_queue s' = audio_queue s0 @ fs" "\<forall>f\<in>set fs. length f = BUFFER_SIZE"
      "concat fs @ inbuffer s' = inbuffer s0" "length (inbuffer s') < BUFFER_SIZE"
      by blast
    with drain show ?thesis by (intro exI [of _ fs]) simp
  qed
qed

lemma basic_twilio_loop_chunks:
  "basic_twilio_loop E ws s = (r, s') \<Longrightarrow> length (inbuffer s) < BUFFER_SIZE \<Longrightarrow>
     \<exists>fs. audio_queue s' = audio_queue s @ fs \<and> (\<forall>f\<in>set fs. length f = BUFFER_SIZE)
        \<and> length (inbuffer s') < BUFFER_SIZE
        \<and> (list_all (basic_passes E) ws \<longrightarrow>
             concat fs @ inbuffer s' = inbuffer s @ concat (map (inbound_audio E) ws))"
proof (induction ws arbitrary: s)
  case Nil
  then show ?case by (intro exI [of _ "[]"]) auto
next
  case (Cons x ws)
  show ?case
  proof (cases x)
    case Abnormal_Close
    with Cons.prems show ?thesis by (intro exI [of _ "[]"]) (auto simp: basic_passes_def)
  next
    case (Msg raw)
    obtain c s1 where step: "basic_on_twilio_message E raw s = (c, s1)" by force
    from basic_on_twilio_message_chunks [OF step Cons.prems(2)] obtain fs1 where 1:
      "audio_queue s1 = audio_queue s @ fs1" "\<forall>f\<in>set fs1. length f = BUFFER_SIZE"
      "concat fs1 @ inbuffer s1 = inbuffer s @ (if c = Next then inbound_audio E (Msg raw) else [])"
      "length (inbuffer s1) < BUFFER_SIZE" "c = Next \<longleftrightarrow> basic_passes E (Msg raw)"
      by blast
    show ?thesis
    proof (cases "c = Next")
      case True
      with Cons.prems(1) Msg step have "basic_twilio_loop E ws s1 = (r, s')" by simp
      from Cons.IH [OF this 1(4)] obtain fs2 where 2:
        "audio_queue s' = audio_queue s1 @ fs2" "\<forall>f\<in>set fs2. length f = BUFFER_SIZE"
        "length (inbuffer s') < BUFFER_SIZE"
        "list_all (basic_passes E) ws \<longrightarrow>
           concat fs2 @ inbuffer s' = inbuffer s1 @ concat (map (inbound_audio E) ws)"
        by blast
      have "list_all (basic_passes E) (x # ws) \<longrightarrow>
              concat (fs1 @ fs2) @ inbuffer s' = inbuffer s @ concat (map (inbound_audio E) (x # ws))"
      proof
        assume "list_all (basic_passes E) (x # ws)"
        then have "list_all (basic_passes E) ws" by simp
        with 2(4) have "concat fs2 @ inbuffer s' = inbuffer s1 @ concat (map (inbound_audio E) ws)"
          by simp
        moreover have "concat fs1 @ inbuffer s1 = inbuffer s @ inbound_audio E x"
          using 1(3) True Msg by simp
        ultimately have
          "concat fs1 @ concat fs2 @ inbuffer s'
             = (concat fs1 @ inbuffer s1) @ concat (map (inbound_audio E) ws)"
          "concat fs1 @ inbuffer s1 = inbuffer s @ inbound_audio E x"
          by simp_all
        then show "concat (fs1 @ fs2) @ inbuffer s'
                     = inbuffer s @ concat (map (inbound_audio E) (x # ws))"
          by simp
      qed
      with 1 2 show ?thesis by (intro exI [of _ "fs1 @ fs2"]) auto
    next
      case False
      with Cons.prems(1) Msg step have "s' = s1" by (cases c) auto
      with 1 False Msg show ?thesis by (intro exI [of _ fs1]) auto
    qed
  qed
qed

text \<open>
  The receiver of \<^verbatim>\<open>main.py\<close> chunks in the same way, with frames of
  \<open>BUFFER_SIZE = 3200\<close> bytes and the payloads of the inbound track.
\<close>

lemma basic_twilio_receiver_chunks:
  assumes "basic_twilio_receiver E ws q sq = (r, s)"
  shows "\<exists>fs. audio_queue s = q @ fs \<and> BUFFER_SIZE = 3200
          \<and> (\<forall>f\<in>set fs. length f = BUFFER_SIZE)
          \<and> length (inbuffer s) < BUFFER_SIZE
          \<and> (list_all (basic_passes E) ws \<longrightarrow>
               concat fs @ inbuffer s = concat (map (inbound_audio E) ws))"
proof -
  let ?s0 = "\<lparr>inbuffer = [], audio_queue = q, streamsid_queue = sq\<rparr>"
  have "length (inbuffer ?s0) < BUFFER_SIZE" by (simp add: BUFFER_SIZE_def)
  from basic_twilio_loop_chunks [OF assms [unfolded basic_twilio_receiver_def] this]
  show ?thesis by (auto simp: BUFFER_SIZE_def)
qed

section \<open>Agent egress\<close>

text \<open>On an open connection the frames at the head of the queue are sent in their order.\<close>

lemma sts_sender_frames:
  "is_open ws \<Longrightarrow>
     sts_sender ws (map Some fs @ q) = sts_sender (ws\<lparr>sent := sent ws @ map Binary fs\<rparr>) q"
proof (induction fs arbitrary: ws)
  case Nil
  then show ?case by simp
next
  case (Cons f fs)
  let ?ws = "ws\<lparr>sent := sent ws @ [Binary f]\<rparr>"
  have "is_open ?ws" using Cons.prems by simp
  from Cons.IH [OF this] Cons.prems show ?case
    by (simp add: ws_send_def)
qed

text \<open>On a closed connection the first frame ends the task, which logs the exception.\<close>

lemma sts_sender_closed:
  "\<not> is_open ws \<Longrightarrow>
     sts_sender ws (Some f # q) = (Returned, ws, [Sts_sender_error ConnectionClosed])"
  by (simp add: ws_send_def)

lemma frames_map_Some: "frames (map Some fs @ [None]) = fs"
  by (induction fs) (simp_all add: frames_def)

text \<open>
  Claim C2. On an open agent connection, the egress task sends the frames it finds on
  the queue as binary messages with the same bytes, in the order of the queue, each
  once, and then waits for more; and for every run of the telephony ingest task on a
  fresh queue, the messages it adds to the agent connection are exactly the frames that
  task has put, in their order.
\<close>

theorem sts_sender_fifo:
  assumes "is_open ws"
  shows "sts_sender ws (map Some fs) = (Waiting, ws\<lparr>sent := sent ws @ map Binary fs\<rparr>, [])
       \<and> sent (fst (snd (sts_sender ws (queue (twilio_receiver E msgs [])))))
           = sent ws @ map Binary (frames (queue (twilio_receiver E msgs [])))"
proof
  from sts_sender_frames [OF assms, of fs "[]"]
  show "sts_sender ws (map Some fs) = (Waiting, ws\<lparr>sent := sent ws @ map Binary fs\<rparr>, [])"
    by simp
next
  from twilio_receiver_puts [of E msgs "[]"] obtain fs' where
    q: "queue (twilio_receiver E msgs []) = map Some fs' @ [None]" by auto
  from sts_sender_frames [OF assms, of fs' "[None]"]
  have "sts_sender ws (map Some fs' @ [None])
          = (Returned, ws_close (ws\<lparr>sent := sent ws @ map Binary fs'\<rparr>), [])"
    by simp
  then show "sent (fst (snd (sts_sender ws (queue (twilio_receiver E msgs [])))))
           = sent ws @ map Binary (frames (queue (twilio_receiver E msgs [])))"
    by (simp add: q frames_map_Some ws_close_def)
qed

theorem sts_sender_fifo_witness:
  "is_open (fresh_conn ''/agent'')
   \<and> sts_sender (fresh_conn ''/agent'') (map Some [[1, 2], [3], [1, 2]])
       = (Waiting, (fresh_conn ''/agent'')\<lparr>sent := [Binary [1, 2], Binary [3], Binary [1, 2]]\<rparr>, [])
   \<and> sent (fst (snd (sts_sender (fresh_conn ''/agent'')
        (queue (twilio_receiver example_env
           [Msg (Document example_start),
            Msg (Document (example_media (concat (replicate 54 ''AAAA'')))),
            Msg (Document (example_media ''AAAAAA==''))] [])))))
      = [Binary (replicate 160 0)]"
proof -
  have o: "is_open (fresh_conn ''/agent'')" by (simp add: fresh_conn_def)
  have f: "frames (queue (twilio_receiver example_env
           [Msg (Document example_start),
            Msg (Document (example_media (concat (replicate 54 ''AAAA'')))),
            Msg (Document (example_media ''AAAAAA==''))] [])) = [replicate 160 0]"
    by code_simp
  from sts_sender_fifo [OF o, of "[[1, 2], [3], [1, 2]]" example_env
      "[Msg (Document example_start),
        Msg (Document (example_media (concat (replicate 54 ''AAAA'')))),
        Msg (Document (example_media ''AAAAAA==''))]"]
  show ?thesis using o f by (simp add: fresh_conn_def)
qed

text \<open>
  Claim C3. On an open agent connection, when the sentinel is on the queue the egress
  task sends every frame put before it, in order, then closes the connection, once,
  and returns; nothing that follows the sentinel on the queue is sent.
\<close>

theorem sts_sender_sentinel:
  assumes "is_open ws"
  shows "sts_sender ws (map Some fs @ None # rest)
         = (Returned,
            \<lparr>path = path ws, is_open = False, sent = sent ws @ map Binary fs,
             close_calls = close_calls ws + 1\<rparr>, [])"
  using sts_sender_frames [OF assms, of fs "None # rest"]
  by (simp add: ws_close_def)

theorem sts_sender_sentinel_witness:
  "is_open (fresh_conn ''/agent'')
   \<and> sts_sender (fresh_conn ''/agent'') (map Some [[1, 2], [3]] @ None # [Some [4], None])
       = (Returned,
          \<lparr>path = Some ''/agent'', is_open = False, sent = [Binary [1, 2], Binary [3]],
           close_calls = 1\<rparr>, [])"
proof -
  have o: "is_open (fresh_conn ''/agent'')" by (simp add: fresh_conn_def)
  from sts_sender_sentinel [OF o, of "[[1, 2], [3]]" "[Some [4], None]"]
  show ?thesis using o by (simp add: fresh_conn_def)
qed

section \<open>A malformed telephony message\<close>

text \<open>Messages that pass are read one after the other.\<close>

lemma twilio_loop_append:
  "list_all (passes E) pre \<Longrightarrow>
     twilio_loop E (pre @ ws) s = twilio_loop E ws (snd (twilio_loop E pre s))"
proof (induction pre arbitrary: s)
  case Nil
  then show ?case by simp
next
  case (Cons x pre)
  from Cons.prems obtain raw where x: "x = Msg raw"
    by (cases x) (simp_all add: passes_def)
  obtain c s1 where step: "on_twilio_message E raw s = (c, s1)" by force
  from on_twilio_message_chunks [OF step] Cons.prems x have "c = Next" by auto
  with step x Cons.IH [of s1] Cons.prems show ?case by simp
qed

lemma twilio_loop_passes:
  "list_all (passes E) pre \<Longrightarrow> fst (twilio_loop E pre s) = None"
proof (induction pre arbitrary: s)
  case Nil
  then show ?case by simp
next
  case (Cons x pre)
  from Cons.prems obtain raw where x: "x = Msg raw"
    by (cases x) (simp_all add: passes_def)
  obtain c s1 where step: "on_twilio_message E raw s = (c, s1)" by force
  from on_twilio_message_chunks [OF step] Cons.prems x have "c = Next" by auto
  with step x Cons.IH [of s1] Cons.prems show ?case by simp
qed

lemma on_malformed:
  assumes "malformed E raw"
  shows "\<exists>e. e \<noteq> ConnectionClosed \<and> on_twilio_message E raw s = (Fault e, s)"
proof (cases raw)
  case Malformed
  then show ?thesis by (simp add: on_twilio_message_def)
next
  case (Document msg)
  show ?thesis
  proof (cases "event_of msg")
    case None
    then obtain e where "py_get msg ''event'' = Inl e" "e \<noteq> ConnectionClosed"
      by (cases msg) (simp_all add: event_of_def)
    with Document show ?thesis by (simp add: on_twilio_message_def)
  next
    case (Some ev)
    with assms Document have "event_of msg = Some (JStr ''media'')" "media_payload E msg = None"
      by (simp_all add: malformed_def)
    from on_media_fault [OF this] Document show ?thesis by simp
  qed
qed

text \<open>
  Claim C8, as the code has it. A malformed message ends the telephony ingest task
  of \<^verbatim>\<open>f/main.py\<close>: the exception is logged as an error of the task, no message
  after it is read, and the task puts the sentinel after the frames it had put before.
  In \<^verbatim>\<open>main.py\<close> text that is not JSON ends the loop without a trace.
\<close>

theorem twilio_receiver_stops_at_malformed:
  assumes "list_all (passes E) pre" and "malformed E raw"
  shows "\<exists>e. e \<noteq> ConnectionClosed
          \<and> twilio_receiver E (pre @ Msg raw # rest) q
            = (let s = snd (twilio_loop E pre (rx_init q))
               in s\<lparr>rx_log := rx_log s @ [Twilio_receiver_error e], queue := queue s @ [None]\<rparr>)
          \<and> basic_twilio_loop E (Msg Malformed # rest) b = (None, b)"
proof -
  let ?s = "snd (twilio_loop E pre (rx_init q))"
  from on_malformed [OF assms(2), of ?s] obtain e where
    e: "e \<noteq> ConnectionClosed" "on_twilio_message E raw ?s = (Fault e, ?s)" by blast
  have "twilio_loop E (pre @ Msg raw # rest) (rx_init q) = (Some e, ?s)"
    using twilio_loop_append [OF assms(1)] e(2) by simp
  with e(1) have "twilio_receiver E (pre @ Msg raw # rest) q
      = ?s\<lparr>rx_log := rx_log ?s @ [Twilio_receiver_error e], queue := queue ?s @ [None]\<rparr>"
    by (cases e) (simp_all add: twilio_receiver_def)
  moreover have "basic_twilio_loop E (Msg Malformed # rest) b = (None, b)"
    by (simp add: basic_on_twilio_message_def)
  ultimately show ?thesis using e(1) by (auto simp: Let_def)
qed

theorem twilio_receiver_stops_at_malformed_witness:
  "list_all (passes example_env)
     [Msg (Document example_start), Msg (Document (example_media (concat (replicate 54 ''AAAA''))))]
   \<and> malformed example_env Malformed
   \<and> (\<exists>e. e \<noteq> ConnectionClosed
        \<and> twilio_receiver example_env
            ([Msg (Document example_start),
              Msg (Document (example_media (concat (replicate 54 ''AAAA''))))]
             @ Msg Malformed # [Msg (Document (example_media (concat (replicate 54 ''AAAA''))))]) []
          = \<lparr>buf = replicate 2 0, queue = [Some (replicate 160 0), None],
             rx_log = [Twilio_stream_started (JStr ''MZ18ad3ab5a668481ce02b83e7395059f0''),
                       Twilio_receiver_error e]\<rparr>)"
proof -
  let ?pre = "[Msg (Document example_start),
               Msg (Document (example_media (concat (replicate 54 ''AAAA''))))]"
  have p: "list_all (passes example_env) ?pre" by code_simp
  have m: "malformed example_env Malformed" by (simp add: malformed_def)
  have s: "snd (twilio_loop example_env ?pre (rx_init []))
           = \<lparr>buf = replicate 2 0, queue = [Some (replicate 160 0)],
              rx_log = [Twilio_stream_started (JStr ''MZ18ad3ab5a668481ce02b83e7395059f0'')]\<rparr>"
    by code_simp
  from twilio_receiver_stops_at_malformed [OF p m,
      of "[Msg (Document (example_media (concat (replicate 54 ''AAAA''))))]" "[]"]
  obtain e where e: "e \<noteq> ConnectionClosed"
    "twilio_receiver example_env
       (?pre @ Msg Malformed # [Msg (Document (example_media (concat (replicate 54 ''AAAA''))))]) []
     = (let s = snd (twilio_loop example_env ?pre (rx_init []))
        in s\<lparr>rx_log := rx_log s @ [Twilio_receiver_error e], queue := queue s @ [None]\<rparr>)"
    by blast
  from e(2) have "twilio_receiver example_env
       (?pre @ Msg Malformed # [Msg (Document (example_media (concat (replicate 54 ''AAAA''))))]) []
     = \<lparr>buf = replicate 2 0, queue = [Some (replicate 160 0), None],
        rx_log = [Twilio_stream_started (JStr ''MZ18ad3ab5a668481ce02b83e7395059f0''),
                  Twilio_receiver_error e]\<rparr>"
    unfolding s Let_def by simp
  with e(1) p m show ?thesis by blast
qed

text \<open>
  The claim as the specification states it fails: a media event that alone yields a
  frame yields nothing when it follows text that is not JSON, or a media event without
  its \<^verbatim>\<open>media\<close> field.
\<close>

theorem twilio_receiver_malformed_counterexample:
  "twilio_receiver example_env
     [Msg (Document (example_media (concat (replicate 54 ''AAAA''))))] []
   = \<lparr>buf = replicate 2 0, queue = [Some (replicate 160 0), None], rx_log = []\<rparr>
   \<and> twilio_receiver example_env
     [Msg Malformed, Msg (Document (example_media (concat (replicate 54 ''AAAA''))))] []
   = \<lparr>buf = [], queue = [None], rx_log = [Twilio_receiver_error JSONDecodeError]\<rparr>
   \<and> twilio_receiver example_env
     [Msg (Document (JObj [(''event'', JStr ''media'')])),
      Msg (Document (example_media (concat (replicate 54 ''AAAA''))))] []
   = \<lparr>buf = [], queue = [None], rx_log = [Twilio_receiver_error (KeyError ''media'')]\<rparr>"
  by code_simp

section \<open>The tool-call bridge\<close>

text \<open>A request of an object reads its fields with their defaults.\<close>

lemma handle_function_call_server_side:
  assumes "\<not> truthy (field kvs ''client_side'' (JBool True))"
  shows "handle_function_call E (JObj kvs) s =
           (None, s\<lparr>relay_log := relay_log s @
              [Tool_call (field kvs ''name'' JNull) (field kvs ''arguments'' (JObj [])),
               Tool_call_server_side (field kvs ''name'' JNull)]\<rparr>)"
  using assms by (simp add: handle_function_call_def field_def)

lemma handle_function_call_client_side:
  assumes "truthy (field kvs ''client_side'' (JBool True))"
    and "execute_function E (field kvs ''name'' JNull) (field kvs ''arguments'' (JObj [])) (store s)
         = (content, w, lines)"
  shows "handle_function_call E (JObj kvs) s =
           (if is_open (ws_dg s)
            then (None,
                  s\<lparr>ws_dg := (ws_dg s)\<lparr>sent := sent (ws_dg s) @
                       [function_call_response (field kvs ''id'' JNull) (field kvs ''name'' JNull) content]\<rparr>,
                    store := w,
                    relay_log := relay_log s
                      @ [Tool_call (field kvs ''name'' JNull) (field kvs ''arguments'' (JObj []))]
                      @ lines @ [Tool_response_sent (field kvs ''name'' JNull)]\<rparr>)
            else (Some ConnectionClosed,
                  s\<lparr>store := w,
                    relay_log := relay_log s
                      @ [Tool_call (field kvs ''name'' JNull) (field kvs ''arguments'' (JObj []))]
                      @ lines\<rparr>))"
  using assms by (simp add: handle_function_call_def ws_send_def field_def)

lemma execute_function_unknown:
  "registry_get E name = Inr None \<Longrightarrow>
     execute_function E name args w
       = (dumps E (JObj [(''success'', JBool False),
                         (''error'', JStr (''Unknown function: '' @ py_str E name))]),
          w, [Function_called name args])"
  by (simp add: execute_function_def failed_def)

lemma execute_function_raises:
  "registry_get E name = Inr (Some fn) \<Longrightarrow> fn args w = (Inl exc, w') \<Longrightarrow>
     execute_function E name args w
       = (dumps E (JObj [(''success'', JBool False), (''error'', JStr (exc_str E exc))]),
          w', [Function_called name args, Function_raised name exc])"
  by (simp add: execute_function_def failed_def)

lemma execute_function_returns:
  "registry_get E name = Inr (Some fn) \<Longrightarrow> fn args w = (Inr result, w') \<Longrightarrow>
     execute_function E name args w
       = (dumps E result, w', [Function_called name args, Function_success name])"
  by (simp add: execute_function_def)

lemma execute_function_unhashable:
  "registry_get E name = Inl exc \<Longrightarrow>
     execute_function E name args w
       = (dumps E (JObj [(''success'', JBool False), (''error'', JStr (exc_str E exc))]),
          w, [Function_called name args, Function_raised name exc])"
  by (simp add: execute_function_def failed_def)

text \<open>
  Claim C4, as the code has it. For a request that is client-side (its flag is true, or
  absent) on an open agent connection, the handler sends one
  \<^verbatim>\<open>FunctionCallResponse\<close> with the id and the name of the request and returns
  without an exception. Its content is the text \<^verbatim>\<open>execute_function\<close> returns: of
  an object with \<^verbatim>\<open>success\<close> false and an \<^verbatim>\<open>error\<close> when the name is not
  registered or the capability raises, and of the result of the capability, whatever
  its fields, when it returns.
\<close>

theorem handle_function_call_responds:
  assumes "truthy (field kvs ''client_side'' (JBool True))" and "is_open (ws_dg s)"
  shows "\<exists>content w lines.
           handle_function_call E (JObj kvs) s =
             (None,
              s\<lparr>ws_dg := (ws_dg s)\<lparr>sent := sent (ws_dg s) @
                   [Text (Document (JObj [(''type'', JStr ''FunctionCallResponse''), (''id'', field kvs ''id'' JNull),
                       (''name'', field kvs ''name'' JNull), (''content'', JStr content)]))]\<rparr>,
                store := w,
                relay_log := relay_log s
                  @ [Tool_call (field kvs ''name'' JNull) (field kvs ''arguments'' (JObj []))]
                  @ lines @ [Tool_response_sent (field kvs ''name'' JNull)]\<rparr>)
         \<and> (registry_get E (field kvs ''name'' JNull) = Inr None \<longrightarrow>
              content = dumps E (JObj [(''success'', JBool False),
                 (''error'', JStr (''Unknown function: '' @ py_str E (field kvs ''name'' JNull)))]))
         \<and> (\<forall>exc. registry_get E (field kvs ''name'' JNull) = Inl exc \<longrightarrow>
              content = dumps E (JObj [(''success'', JBool False), (''error'', JStr (exc_str E exc))]))
         \<and> (\<forall>fn exc w'. registry_get E (field kvs ''name'' JNull) = Inr (Some fn)
              \<and> fn (field kvs ''arguments'' (JObj [])) (store s) = (Inl exc, w') \<longrightarrow>
              content = dumps E (JObj [(''success'', JBool False), (''error'', JStr (exc_str E exc))]))
         \<and> (\<forall>fn result w'. registry_get E (field kvs ''name'' JNull) = Inr (Some fn)
              \<and> fn (field kvs ''arguments'' (JObj [])) (store s) = (Inr result, w') \<longrightarrow>
              content = dumps E result)"
proof -
  let ?name = "field kvs ''name'' JNull" and ?args = "field kvs ''arguments'' (JObj [])"
  obtain content w lines where
    ex: "execute_function E ?name ?args (store s) = (content, w, lines)"
    by (cases "execute_function E ?name ?args (store s)") auto
  from handle_function_call_client_side [OF assms(1) ex] assms(2)
  have "handle_function_call E (JObj kvs) s =
             (None,
              s\<lparr>ws_dg := (ws_dg s)\<lparr>sent := sent (ws_dg s) @
                   [Text (Document (JObj [(''type'', JStr ''FunctionCallResponse''), (''id'', field kvs ''id'' JNull),
                       (''name'', ?name), (''content'', JStr content)]))]\<rparr>,
                store := w,
                relay_log := relay_log s @ [Tool_call ?name ?args] @ lines @ [Tool_response_sent ?name]\<rparr>)"
    by (simp add: function_call_response_def)
  moreover have "\<forall>exc. registry_get E ?name = Inl exc \<longrightarrow>
      content = dumps E (JObj [(''success'', JBool False), (''error'', JStr (exc_str E exc))])"
    using ex execute_function_unhashable [of E ?name _ ?args "store s"] by auto
  moreover have "registry_get E ?name = Inr None \<longrightarrow>
      content = dumps E (JObj [(''success'', JBool False),
                 (''error'', JStr (''Unknown function: '' @ py_str E ?name))])"
    using ex execute_function_unknown [of E ?name ?args "store s"] by auto
  moreover have "\<forall>fn exc w'. registry_get E ?name = Inr (Some fn)
              \<and> fn ?args (store s) = (Inl exc, w') \<longrightarrow>
              content = dumps E (JObj [(''success'', JBool False), (''error'', JStr (exc_str E exc))])"
    using ex execute_function_raises [of E ?name _ ?args "store s"] by auto
  moreover have "\<forall>fn result w'. registry_get E ?name = Inr (Some fn)
              \<and> fn ?args (store s) = (Inr result, w') \<longrightarrow> content = dumps E result"
    using ex execute_function_returns [of E ?name _ ?args "store s"] by auto
  ultimately show ?thesis by blast
qed

theorem handle_function_call_responds_witness:
  "truthy (field (example_request ''c7'' ''verify_tenant'' (JObj [(''unit_number'', JInt 101)])
                  @ [(''client_side'', JBool True)]) ''client_side'' (JBool True))
   \<and> is_open (ws_dg example_state)
   \<and> handle_function_call example_env
        (JObj (example_request ''c7'' ''verify_tenant'' (JObj [(''unit_number'', JInt 101)])
               @ [(''client_side'', JBool True)])) example_state
      = (None,
         example_state\<lparr>ws_dg := (fresh_conn ''/agent'')\<lparr>sent :=
             [Text (Document (JObj [(''type'', JStr ''FunctionCallResponse''), (''id'', JStr ''c7''),
                       (''name'', JStr ''verify_tenant''), (''content'', JStr (dumps example_env (JObj [(''success'', JBool False), (''error'', JStr ''error'')])))]))]\<rparr>,
           relay_log :=
             [Tool_call (JStr ''verify_tenant'') (JObj [(''unit_number'', JInt 101)]),
              Function_called (JStr ''verify_tenant'') (JObj [(''unit_number'', JInt 101)]),
              Function_raised (JStr ''verify_tenant'') (AttributeError (JInt 101) ''strip''),
              Tool_response_sent (JStr ''verify_tenant'')]\<rparr>)"
proof -
  let ?kvs = "example_request ''c7'' ''verify_tenant'' (JObj [(''unit_number'', JInt 101)])
              @ [(''client_side'', JBool True)]"
  have t: "truthy (field ?kvs ''client_side'' (JBool True))" by code_simp
  have o: "is_open (ws_dg example_state)" by code_simp
  have n: "field ?kvs ''name'' JNull = JStr ''verify_tenant''"
    and a: "field ?kvs ''arguments'' (JObj []) = JObj [(''unit_number'', JInt 101)]"
    and i: "field ?kvs ''id'' JNull = JStr ''c7''"
    by code_simp+
  have r: "registry_get example_env (JStr ''verify_tenant'') = Inr (Some verify_tenant)"
    by (simp add: FUNCTION_MAP_def)
  have v: "verify_tenant (JObj [(''unit_number'', JInt 101)]) (store example_state)
           = (Inl (AttributeError (JInt 101) ''strip''), store example_state)"
    by (simp add: verify_tenant_def bind_def arg_def)
  have x: "exc_str example_env (AttributeError (JInt 101) ''strip'') = ''error''"
    by (simp add: example_env_def)
  from handle_function_call_responds [OF t o, of example_env] obtain content w lines where
    h: "handle_function_call example_env (JObj ?kvs) example_state =
          (None,
           example_state\<lparr>ws_dg := (ws_dg example_state)\<lparr>sent := sent (ws_dg example_state) @
                [Text (Document (JObj [(''type'', JStr ''FunctionCallResponse''), (''id'', field ?kvs ''id'' JNull),
                       (''name'', field ?kvs ''name'' JNull), (''content'', JStr content)]))]\<rparr>,
             store := w,
             relay_log := relay_log example_state
               @ [Tool_call (field ?kvs ''name'' JNull) (field ?kvs ''arguments'' (JObj []))]
               @ lines @ [Tool_response_sent (field ?kvs ''name'' JNull)]\<rparr>)"
    and c: "\<forall>fn exc w'. registry_get example_env (field ?kvs ''name'' JNull) = Inr (Some fn)
              \<and> fn (field ?kvs ''arguments'' (JObj [])) (store example_state) = (Inl exc, w') \<longrightarrow>
              content = dumps example_env (JObj [(''success'', JBool False), (''error'', JStr (exc_str example_env exc))])"
    by blast
  from c r v have "content = dumps example_env (JObj [(''success'', JBool False), (''error'', JStr ''error'')])"
    unfolding n a x [symmetric] by blast
  moreover have "handle_function_call example_env (JObj ?kvs) example_state
      = (None,
         example_state\<lparr>ws_dg := (fresh_conn ''/agent'')\<lparr>sent :=
             [Text (Document (JObj [(''type'', JStr ''FunctionCallResponse''), (''id'', JStr ''c7''),
                       (''name'', JStr ''verify_tenant''), (''content'', JStr (dumps example_env (JObj [(''success'', JBool False), (''error'', JStr ''error'')])))]))]\<rparr>,
           relay_log :=
             [Tool_call (JStr ''verify_tenant'') (JObj [(''unit_number'', JInt 101)]),
              Function_called (JStr ''verify_tenant'') (JObj [(''unit_number'', JInt 101)]),
              Function_raised (JStr ''verify_tenant'') (AttributeError (JInt 101) ''strip''),
              Tool_response_sent (JStr ''verify_tenant'')]\<rparr>)"
    by code_simp
  ultimately show ?thesis using t o by blast
qed

text \<open>
  The claim as the specification states it fails: the content sent for a verified
  tenant is the text of an object without a \<^verbatim>\<open>success\<close> field.
\<close>

theorem handle_function_call_shape_counterexample:
  "handle_function_call example_env
     (JObj (example_request ''c1'' ''verify_tenant'' (JObj [(''unit_number'', JStr ''101'')])
            @ [(''client_side'', JBool True)])) example_state
   = (None,
      example_state\<lparr>ws_dg := (fresh_conn ''/agent'')\<lparr>sent :=
          [Text (Document (JObj [(''type'', JStr ''FunctionCallResponse''), (''id'', JStr ''c1''),
                       (''name'', JStr ''verify_tenant''), (''content'', JStr (dumps example_env
                (JObj [(''verified'', JBool True), (''unit_number'', JStr ''101''),
                       (''tenant_name'', JStr ''Priya Sharma'')])))]))]\<rparr>,
        relay_log :=
          [Tool_call (JStr ''verify_tenant'') (JObj [(''unit_number'', JStr ''101'')]),
           Function_called (JStr ''verify_tenant'') (JObj [(''unit_number'', JStr ''101'')]),
           Function_success (JStr ''verify_tenant''),
           Tool_response_sent (JStr ''verify_tenant'')]\<rparr>)
   \<and> map_of [(''verified'', JBool True), (''unit_number'', JStr ''101''),
              (''tenant_name'', JStr ''Priya Sharma'')] ''success'' = None"
  by code_simp

text \<open>
  Claim C5. For a name that is not a key of the registry, \<^verbatim>\<open>execute_function\<close>
  returns the text of an object with \<^verbatim>\<open>success\<close> false and an \<^verbatim>\<open>error\<close> that
  names the function; the store is unchanged, and nothing is raised (the function
  returns a value in every case).
\<close>

theorem execute_function_unknown_name:
  assumes "name \<notin> set (map fst (FUNCTION_MAP E))"
  shows "execute_function E (JStr name) args w
       = (dumps E (JObj [(''success'', JBool False),
                         (''error'', JStr (''Unknown function: '' @ name))]),
          w, [Function_called (JStr name) args])"
proof -
  from assms have "map_of (FUNCTION_MAP E) name = None"
    by (simp add: map_of_eq_None_iff)
  then have "registry_get E (JStr name) = Inr None" by simp
  from execute_function_unknown [OF this] show ?thesis by simp
qed

theorem execute_function_unknown_name_witness:
  "''lookup_weather'' \<notin> set (map fst (FUNCTION_MAP example_env))
   \<and> execute_function example_env (JStr ''lookup_weather'') (JObj [(''city'', JStr ''Leeds'')]) empty_world
     = (dumps example_env (JObj [(''success'', JBool False),
                                 (''error'', JStr ''Unknown function: lookup_weather'')]),
        empty_world, [Function_called (JStr ''lookup_weather'') (JObj [(''city'', JStr ''Leeds'')])])"
proof -
  have u: "''lookup_weather'' \<notin> set (map fst (FUNCTION_MAP example_env))"
    by (simp add: FUNCTION_MAP_def)
  from execute_function_unknown_name [OF u, of "JObj [(''city'', JStr ''Leeds'')]" empty_world]
  show ?thesis using u by simp
qed

text \<open>
  Claim C6. A request whose \<^verbatim>\<open>client_side\<close> flag is false is only logged: the
  handler adds two log lines and changes nothing else, so the agent connection has no
  new message and the store, which only a capability writes, is the same. Whenever the
  handler does add a message to the agent connection, the flag of the request is true
  (or absent, which stands for true).
\<close>

theorem handle_function_call_not_client_side:
  assumes "map_of kvs ''client_side'' = Some (JBool False)"
  shows "handle_function_call E (JObj kvs) s =
           (None, s\<lparr>relay_log := relay_log s @
              [Tool_call (field kvs ''name'' JNull) (field kvs ''arguments'' (JObj [])),
               Tool_call_server_side (field kvs ''name'' JNull)]\<rparr>)
       \<and> ws_dg (snd (handle_function_call E (JObj kvs) s)) = ws_dg s
       \<and> store (snd (handle_function_call E (JObj kvs) s)) = store s
       \<and> (sent (ws_dg (snd (handle_function_call E (JObj kvs') s'))) \<noteq> sent (ws_dg s')
            \<longrightarrow> truthy (field kvs' ''client_side'' (JBool True)))"
proof -
  from assms have "\<not> truthy (field kvs ''client_side'' (JBool True))"
    by (simp add: field_def)
  note 1 = handle_function_call_server_side [OF this, of E s]
  have "sent (ws_dg (snd (handle_function_call E (JObj kvs') s'))) \<noteq> sent (ws_dg s')
            \<longrightarrow> truthy (field kvs' ''client_side'' (JBool True))"
  proof (cases "truthy (field kvs' ''client_side'' (JBool True))")
    case True
    then show ?thesis by simp
  next
    case False
    from handle_function_call_server_side [OF False, of E s']
    have "sent (ws_dg (snd (handle_function_call E (JObj kvs') s'))) = sent (ws_dg s')"
      by simp
    then show ?thesis by simp
  qed
  with 1 show ?thesis by simp
qed

theorem handle_function_call_not_client_side_witness:
  "map_of (example_request ''c4'' ''file_complaint''
             (JObj [(''unit_number'', JStr ''202''), (''category'', JStr ''gas_leak''),
                    (''description'', JStr ''smell of gas''), (''tenant_name'', JStr ''James O'Brien'')])
           @ [(''client_side'', JBool False)]) ''client_side'' = Some (JBool False)
   \<and> handle_function_call example_env
        (JObj (example_request ''c4'' ''file_complaint''
             (JObj [(''unit_number'', JStr ''202''), (''category'', JStr ''gas_leak''),
                    (''description'', JStr ''smell of gas''), (''tenant_name'', JStr ''James O'Brien'')])
           @ [(''client_side'', JBool False)])) example_state
      = (None,
         example_state\<lparr>relay_log :=
           [Tool_call (JStr ''file_complaint'')
              (JObj [(''unit_number'', JStr ''202''), (''category'', JStr ''gas_leak''),
                     (''description'', JStr ''smell of gas''), (''tenant_name'', JStr ''James O'Brien'')]),
            Tool_call_server_side (JStr ''file_complaint'')]\<rparr>)"
proof -
  let ?kvs = "example_request ''c4'' ''file_complaint''
             (JObj [(''unit_number'', JStr ''202''), (''category'', JStr ''gas_leak''),
                    (''description'', JStr ''smell of gas''), (''tenant_name'', JStr ''James O'Brien'')])
           @ [(''client_side'', JBool False)]"
  have f: "map_of ?kvs ''client_side'' = Some (JBool False)"
    by (simp add: example_request_def)
  from handle_function_call_not_client_side [OF f, of example_env example_state]
  show ?thesis using f by (simp add: field_def example_request_def example_state_def)
qed

text \<open>
  Claim C10. A request without a \<^verbatim>\<open>client_side\<close> field is handled as a client-side
  one: on an open agent connection the handler runs \<^verbatim>\<open>execute_function\<close> on the
  name and the arguments of the request, keeps the state of the store it returns, and
  sends a \<^verbatim>\<open>FunctionCallResponse\<close> with the id of the request and the returned
  content.
\<close>

theorem handle_function_call_default_flag:
  assumes "map_of kvs ''client_side'' = None" and "is_open (ws_dg s)"
  shows "\<exists>content w lines.
           execute_function E (field kvs ''name'' JNull) (field kvs ''arguments'' (JObj [])) (store s)
             = (content, w, lines)
         \<and> handle_function_call E (JObj kvs) s =
             (None,
              s\<lparr>ws_dg := (ws_dg s)\<lparr>sent := sent (ws_dg s) @
                   [Text (Document (JObj [(''type'', JStr ''FunctionCallResponse''), (''id'', field kvs ''id'' JNull),
                       (''name'', field kvs ''name'' JNull), (''content'', JStr content)]))]\<rparr>,
                store := w,
                relay_log := relay_log s
                  @ [Tool_call (field kvs ''name'' JNull) (field kvs ''arguments'' (JObj []))]
                  @ lines @ [Tool_response_sent (field kvs ''name'' JNull)]\<rparr>)"
proof -
  let ?name = "field kvs ''name'' JNull" and ?args = "field kvs ''arguments'' (JObj [])"
  obtain content w lines where
    ex: "execute_function E ?name ?args (store s) = (content, w, lines)"
    by (cases "execute_function E ?name ?args (store s)") auto
  from assms(1) have "truthy (field kvs ''client_side'' (JBool True))"
    by (simp add: field_def)
  from handle_function_call_client_side [OF this ex] assms(2) ex show ?thesis
    by (simp add: function_call_response_def)
qed

theorem handle_function_call_default_flag_witness:
  "map_of (example_request ''c3'' ''agent_filler'' (JObj [(''message'', JStr ''One moment.'')]))
     ''client_side'' = None
   \<and> is_open (ws_dg example_state)
   \<and> handle_function_call example_env
        (JObj (example_request ''c3'' ''agent_filler'' (JObj [(''message'', JStr ''One moment.'')])))
        example_state
      = (None,
         example_state\<lparr>ws_dg := (fresh_conn ''/agent'')\<lparr>sent :=
             [Text (Document (JObj [(''type'', JStr ''FunctionCallResponse''), (''id'', JStr ''c3''),
                       (''name'', JStr ''agent_filler''), (''content'', JStr (dumps example_env
                   (JObj [(''success'', JBool True), (''message'', JStr ''One moment.'')])))]))]\<rparr>,
           relay_log :=
             [Tool_call (JStr ''agent_filler'') (JObj [(''message'', JStr ''One moment.'')]),
              Function_called (JStr ''agent_filler'') (JObj [(''message'', JStr ''One moment.'')]),
              Function_success (JStr ''agent_filler''),
              Tool_response_sent (JStr ''agent_filler'')]\<rparr>)"
proof -
  let ?kvs = "example_request ''c3'' ''agent_filler'' (JObj [(''message'', JStr ''One moment.'')])"
  have f: "map_of ?kvs ''client_side'' = None" by (simp add: example_request_def)
  have o: "is_open (ws_dg example_state)" by code_simp
  from handle_function_call_default_flag [OF f o, of example_env] obtain content w lines where
    "execute_function example_env (field ?kvs ''name'' JNull) (field ?kvs ''arguments'' (JObj []))
       (store example_state) = (content, w, lines)"
    by blast
  moreover have "handle_function_call example_env (JObj ?kvs) example_state
      = (None,
         example_state\<lparr>ws_dg := (fresh_conn ''/agent'')\<lparr>sent :=
             [Text (Document (JObj [(''type'', JStr ''FunctionCallResponse''), (''id'', JStr ''c3''),
                       (''name'', JStr ''agent_filler''), (''content'', JStr (dumps example_env
                   (JObj [(''success'', JBool True), (''message'', JStr ''One moment.'')])))]))]\<rparr>,
           relay_log :=
             [Tool_call (JStr ''agent_filler'') (JObj [(''message'', JStr ''One moment.'')]),
              Function_called (JStr ''agent_filler'') (JObj [(''message'', JStr ''One moment.'')]),
              Function_success (JStr ''agent_filler''),
              Tool_response_sent (JStr ''agent_filler'')]\<rparr>)"
    by code_simp
  ultimately show ?thesis using f o by blast
qed

section \<open>Filing a gas leak\<close>

lemma gas_leak_category: "strip (lower ''gas_leak'') = ''gas_leak''"
  by code_simp

lemma gas_leak_config:
  "''gas_leak'' \<in> fst ` set COMPLAINT_CONFIG"
  "map_of COMPLAINT_CONFIG ''gas_leak'' = Some (''Gas Leak'', 1, ''Emergency Response'', 1)"
  "''gas_leak'' \<in> EMERGENCY_CATEGORIES"
  by (simp_all add: COMPLAINT_CONFIG_def EMERGENCY_CATEGORIES_def)

lemma gas_leak_assurance:
  "map_of ASSURANCE_SCRIPTS ''gas_leak'' =
     Some (''This is a critical emergency. Our emergency response team has been alerted ''
      @ ''right now and will be at your property within one hour. Please leave your flat ''
      @ ''immediately, do not touch any light switches or electrical devices, and wait ''
      @ ''outside. We will call you back within 15 minutes to confirm someone is on their ''
      @ ''way.'')"
  by (simp add: ASSURANCE_SCRIPTS_def)

text \<open>
  Claim C9. For the arguments of the scenario, \<^verbatim>\<open>file_complaint\<close> returns a result
  with \<^verbatim>\<open>success\<close> true, a ticket id that starts with \<^verbatim>\<open>MAD-\<close> (followed by the
  first eight characters of the UUID, in upper case), \<^verbatim>\<open>is_emergency\<close> true,
  \<^verbatim>\<open>sla_hours\<close> 1 and the description \<^verbatim>\<open>within 1 hour\<close>, whatever the
  environment and the state of the store; and \<^verbatim>\<open>execute_function\<close> returns the
  text of that result.
\<close>

theorem file_complaint_gas_leak:
  "fst (file_complaint E
          (JObj [(''unit_number'', JStr ''202''), (''category'', JStr ''gas_leak''),
                 (''description'', JStr ''smell of gas''), (''tenant_name'', JStr ''James O'Brien'')]) w)
   = Inr (JObj
       [(''success'', JBool True),
        (''ticket_id'', JStr (''MAD-'' @ upper (take 8 (uuid4 E (uuid_calls w))))),
        (''is_emergency'', JBool True),
        (''label'', JStr ''Gas Leak''),
        (''team'', JStr ''Emergency Response''),
        (''sla_hours'', JInt 1),
        (''sla_description'', JStr ''within 1 hour''),
        (''response_plan'', JStr (build_response_plan ''gas_leak'' ''Gas Leak'' ''Emergency Response'' 1 True)),
        (''assurance_message'',
           JStr (''This is a critical emergency. Our emergency response team has been alerted ''
             @ ''right now and will be at your property within one hour. Please leave your flat ''
             @ ''immediately, do not touch any light switches or electrical devices, and wait ''
             @ ''outside. We will call you back within 15 minutes to confirm someone is on their ''
             @ ''way.''))])
   \<and> fst (execute_function E (JStr ''file_complaint'')
          (JObj [(''unit_number'', JStr ''202''), (''category'', JStr ''gas_leak''),
                 (''description'', JStr ''smell of gas''), (''tenant_name'', JStr ''James O'Brien'')]) w)
   = dumps E (JObj
       [(''success'', JBool True),
        (''ticket_id'', JStr (''MAD-'' @ upper (take 8 (uuid4 E (uuid_calls w))))),
        (''is_emergency'', JBool True),
        (''label'', JStr ''Gas Leak''),
        (''team'', JStr ''Emergency Response''),
        (''sla_hours'', JInt 1),
        (''sla_description'', JStr ''within 1 hour''),
        (''response_plan'', JStr (build_response_plan ''gas_leak'' ''Gas Leak'' ''Emergency Response'' 1 True)),
        (''assurance_message'',
           JStr (''This is a critical emergency. Our emergency response team has been alerted ''
             @ ''right now and will be at your property within one hour. Please leave your flat ''
             @ ''immediately, do not touch any light switches or electrical devices, and wait ''
             @ ''outside. We will call you back within 15 minutes to confirm someone is on their ''
             @ ''way.''))])"
proof -
  let ?args = "JObj [(''unit_number'', JStr ''202''), (''category'', JStr ''gas_leak''),
                 (''description'', JStr ''smell of gas''), (''tenant_name'', JStr ''James O'Brien'')]"
  let ?result = "JObj
       [(''success'', JBool True),
        (''ticket_id'', JStr (''MAD-'' @ upper (take 8 (uuid4 E (uuid_calls w))))),
        (''is_emergency'', JBool True),
        (''label'', JStr ''Gas Leak''),
        (''team'', JStr ''Emergency Response''),
        (''sla_hours'', JInt 1),
        (''sla_description'', JStr ''within 1 hour''),
        (''response_plan'', JStr (build_response_plan ''gas_leak'' ''Gas Leak'' ''Emergency Response'' 1 True)),
        (''assurance_message'',
           JStr (''This is a critical emergency. Our emergency response team has been alerted ''
             @ ''right now and will be at your property within one hour. Please leave your flat ''
             @ ''immediately, do not touch any light switches or electrical devices, and wait ''
             @ ''outside. We will call you back within 15 minutes to confirm someone is on their ''
             @ ''way.''))]"
  have 1: "fst (file_complaint E ?args w) = Inr ?result"
    unfolding file_complaint_def
    by (simp add: bind_def arg_def gas_leak_category gas_leak_config gas_leak_assurance
          sla_to_words_def Let_def del: append.simps)
  obtain w' where 2: "file_complaint E ?args w = (Inr ?result, w')"
    using 1 by (cases "file_complaint E ?args w") auto
  have "registry_get E (JStr ''file_complaint'') = Inr (Some (file_complaint E))"
    by (simp add: FUNCTION_MAP_def)
  from execute_function_returns [OF this 2]
  have "fst (execute_function E (JStr ''file_complaint'') ?args w) = dumps E ?result"
    by simp
  with 1 show ?thesis by (rule conjI)
qed

section \<open>Barge-in\<close>

lemma handle_function_call_ws_twilio:
  "ws_twilio (snd (handle_function_call E req s)) = ws_twilio s"
proof (cases req)
  case (JObj kvs)
  show ?thesis
  proof (cases "truthy (field kvs ''client_side'' (JBool True))")
    case False
    from handle_function_call_server_side [OF False, of E s] JObj show ?thesis by simp
  next
    case True
    obtain content w lines where
      "execute_function E (field kvs ''name'' JNull) (field kvs ''arguments'' (JObj [])) (store s)
         = (content, w, lines)"
      by (cases "execute_function E (field kvs ''name'' JNull) (field kvs ''arguments'' (JObj [])) (store s)") auto
    from handle_function_call_client_side [OF True this] JObj show ?thesis by simp
  qed
qed (simp_all add: handle_function_call_def)

text \<open>A frame of the agent adds messages to the telephony connection, and removes none.\<close>

lemma on_agent_frame_sent:
  "\<exists>later. sent (ws_twilio (snd (on_agent_frame E raw s))) = sent (ws_twilio s) @ later"
proof (cases raw)
  case (Binary audio)
  then show ?thesis by (simp add: on_agent_frame_def ws_send_def)
next
  case (Text t)
  show ?thesis
  proof (cases t)
    case Malformed
    with Text show ?thesis by (simp add: on_agent_frame_def)
  next
    case (Document msg)
    show ?thesis
    proof (cases "py_get msg ''type''")
      case (Inl e)
      with Text Document show ?thesis by (simp add: on_agent_frame_def)
    next
      case (Inr mtype)
      consider "mtype = JStr ''ConversationText''" | "mtype = JStr ''FunctionCallRequest''"
        | "mtype = JStr ''UserStartedSpeaking''"
        | "mtype \<noteq> JStr ''ConversationText''" "mtype \<noteq> JStr ''FunctionCallRequest''"
          "mtype \<noteq> JStr ''UserStartedSpeaking''"
        by blast
      then show ?thesis
      proof cases
        case 1
        have "ws_twilio (snd (on_agent_frame E raw s)) = ws_twilio s"
          using Text Document Inr 1
          by (simp add: on_agent_frame_def split: sum.splits json.splits)
        then show ?thesis by simp
      next
        case 2
        have "ws_twilio (snd (on_agent_frame E raw s)) = ws_twilio s"
          using Text Document Inr 2 handle_function_call_ws_twilio [of E msg s]
          by (auto simp: on_agent_frame_def split: prod.splits option.splits)
        then show ?thesis by simp
      next
        case 3
        with Text Document Inr show ?thesis by (simp add: on_agent_frame_def ws_send_def)
      next
        case 4
        have "ws_twilio (snd (on_agent_frame E raw s)) = ws_twilio s"
          using Text Document Inr 4 by (simp add: on_agent_frame_def)
        then show ?thesis by simp
      qed
    qed
  qed
qed

lemma sts_receiver_loop_sent:
  "\<exists>later. sent (ws_twilio (snd (sts_receiver_loop E fs s))) = sent (ws_twilio s) @ later"
proof (induction fs arbitrary: s)
  case Nil
  show ?case by simp
next
  case (Cons x fs)
  show ?case
  proof (cases x)
    case Abnormal_Close
    then show ?thesis by simp
  next
    case (Msg raw)
    obtain c s1 where step: "on_agent_frame E raw s = (c, s1)" by force
    from on_agent_frame_sent [of E raw s] step obtain l1 where
      1: "sent (ws_twilio s1) = sent (ws_twilio s) @ l1" by auto
    show ?thesis
    proof (cases "c = Next")
      case True
      from Cons.IH [of s1] obtain l2 where
        "sent (ws_twilio (snd (sts_receiver_loop E fs s1))) = sent (ws_twilio s1) @ l2" by blast
      with 1 True step Msg show ?thesis by simp
    next
      case False
      with step Msg have "snd (sts_receiver_loop E (x # fs) s) = s1" by (cases c) simp_all
      with 1 show ?thesis by simp
    qed
  qed
qed

lemma sts_receiver_ws_twilio:
  "ws_twilio (sts_receiver E fs s) = ws_twilio (snd (sts_receiver_loop E fs s))"
  by (simp add: sts_receiver_def split: prod.splits option.splits exn.splits)

lemma basic_sts_receiver_loop_sent:
  "\<exists>later. sent (snd (basic_sts_receiver_loop E fs sid ws)) = sent ws @ later"
proof (induction E fs sid ws rule: basic_sts_receiver_loop.induct)
  case (4 E decoded rest streamsid twilio_ws)
  show ?case
  proof (cases "handle_text_message decoded twilio_ws streamsid")
    case (Inl e)
    then show ?thesis by simp
  next
    case (Inr ws)
    then have "\<exists>l. sent ws = sent twilio_ws @ l"
      by (auto simp: handle_text_message_def handle_barge_in_def ws_send_def
               split: sum.splits if_splits)
    with "4.IH" [OF Inr] Inr show ?thesis by auto
  qed
next
  case (5 E raw_mulaw rest streamsid twilio_ws)
  show ?case
  proof (cases "ws_send twilio_ws (basic_media_message E streamsid raw_mulaw)")
    case (Inl e)
    then show ?thesis by simp
  next
    case (Inr ws)
    then have "\<exists>l. sent ws = sent twilio_ws @ l"
      by (auto simp: ws_send_def split: if_splits)
    with "5.IH" [OF Inr] Inr show ?thesis by auto
  qed
qed simp_all

text \<open>
  Claim C7. When the agent ingress task reads a \<^verbatim>\<open>UserStartedSpeaking\<close> message
  and the telephony connection is open, it sends the interrupt event at once: the
  frames that follow are handled from the state in which the event has been sent, so
  on the telephony connection the event comes before every message that a later frame
  of the agent produces. This holds for the \<^verbatim>\<open>clear\<close> event of \<^verbatim>\<open>f/main.py\<close>
  and for the \<^verbatim>\<open>barge-in\<close> event of \<^verbatim>\<open>main.py\<close>.
\<close>

theorem barge_in_sent_at_once:
  assumes "map_of kvs ''type'' = Some (JStr ''UserStartedSpeaking'')"
    and "is_open (ws_twilio s)" and "is_open twilio_ws"
  shows "sts_receiver E (Msg (Text (Document (JObj kvs))) # rest) s
           = sts_receiver E rest
               (s\<lparr>ws_twilio := (ws_twilio s)\<lparr>sent := sent (ws_twilio s) @
                    [Text (Document (JObj [(''event'', JStr ''clear''),
                                           (''streamSid'', JStr (stream_sid (ws_twilio s)))]))]\<rparr>\<rparr>)
       \<and> (\<exists>later. sent (ws_twilio (sts_receiver E (Msg (Text (Document (JObj kvs))) # rest) s))
             = sent (ws_twilio s) @ Text (Document (JObj [(''event'', JStr ''clear''),
                       (''streamSid'', JStr (stream_sid (ws_twilio s)))])) # later)
       \<and> (\<exists>later. sent (snd (basic_sts_receiver_loop E (Msg (Text (Document (JObj kvs))) # rest)
                              sid twilio_ws))
             = sent twilio_ws
               @ Text (Document (JObj [(''event'', JStr ''barge-in''), (''streamsid'', sid)])) # later)"
proof -
  let ?s1 = "s\<lparr>ws_twilio := (ws_twilio s)\<lparr>sent := sent (ws_twilio s) @
                    [Text (Document (JObj [(''event'', JStr ''clear''),
                                           (''streamSid'', JStr (stream_sid (ws_twilio s)))]))]\<rparr>\<rparr>"
  from assms(1,2) have step: "on_agent_frame E (Text (Document (JObj kvs))) s = (Next, ?s1)"
    by (simp add: on_agent_frame_def ws_send_def clear_event_def)
  then have eq: "sts_receiver E (Msg (Text (Document (JObj kvs))) # rest) s = sts_receiver E rest ?s1"
    by (simp add: sts_receiver_def)
  from sts_receiver_loop_sent [of E rest ?s1] obtain later where
    "sent (ws_twilio (snd (sts_receiver_loop E rest ?s1))) = sent (ws_twilio ?s1) @ later" by blast
  then have "sent (ws_twilio (sts_receiver E rest ?s1))
               = sent (ws_twilio s) @ Text (Document (JObj [(''event'', JStr ''clear''),
                       (''streamSid'', JStr (stream_sid (ws_twilio s)))])) # later"
    by (simp add: sts_receiver_ws_twilio)
  with eq have f: "\<exists>later. sent (ws_twilio (sts_receiver E (Msg (Text (Document (JObj kvs))) # rest) s))
             = sent (ws_twilio s) @ Text (Document (JObj [(''event'', JStr ''clear''),
                       (''streamSid'', JStr (stream_sid (ws_twilio s)))])) # later"
    by simp
  let ?m = "Text (Document (JObj [(''event'', JStr ''barge-in''), (''streamsid'', sid)]))"
  let ?ws = "twilio_ws\<lparr>sent := sent twilio_ws @ [?m]\<rparr>"
  from assms(1,3) have "handle_text_message (JObj kvs) twilio_ws sid = Inr ?ws"
    by (simp add: handle_text_message_def handle_barge_in_def ws_send_def)
  then have "basic_sts_receiver_loop E (Msg (Text (Document (JObj kvs))) # rest) sid twilio_ws
               = basic_sts_receiver_loop E rest sid ?ws"
    by simp
  moreover from basic_sts_receiver_loop_sent [of E rest sid ?ws] obtain later where
    "sent (snd (basic_sts_receiver_loop E rest sid ?ws)) = sent ?ws @ later" by blast
  ultimately have "\<exists>later. sent (snd (basic_sts_receiver_loop E
        (Msg (Text (Document (JObj kvs))) # rest) sid twilio_ws)) = sent twilio_ws @ ?m # later"
    by simp
  with eq f show ?thesis by blast
qed

theorem barge_in_sent_at_once_witness:
  "map_of [(''type'', JStr ''UserStartedSpeaking'')] ''type'' = Some (JStr ''UserStartedSpeaking'')
   \<and> is_open (ws_twilio example_state) \<and> is_open (fresh_conn ''/twilio'')
   \<and> (\<exists>later. sent (ws_twilio (sts_receiver example_env
          (Msg (Text (Document (JObj [(''type'', JStr ''UserStartedSpeaking'')])))
           # [Msg (Binary [1, 2, 3])]) example_state))
        = sent (ws_twilio example_state) @ Text (Document (JObj [(''event'', JStr ''clear''),
                       (''streamSid'', JStr (stream_sid (ws_twilio example_state)))])) # later)
   \<and> sent (ws_twilio (sts_receiver example_env
          (Msg (Text (Document (JObj [(''type'', JStr ''UserStartedSpeaking'')])))
           # [Msg (Binary [1, 2, 3])]) example_state))
      = [Text (Document (JObj [(''event'', JStr ''clear''),
                               (''streamSid'', JStr ''MZ18ad3ab5a668481ce02b83e7395059f0'')])),
         Text (Document (JObj [(''event'', JStr ''media''),
                               (''streamSid'', JStr ''MZ18ad3ab5a668481ce02b83e7395059f0''),
                               (''media'', JObj [(''payload'', JStr ''AQID'')])]))]
   \<and> sent (snd (basic_sts_receiver_loop example_env
          (Msg (Text (Document (JObj [(''type'', JStr ''UserStartedSpeaking'')])))
           # [Msg (Binary [1, 2, 3])]) (JStr ''MZ18ad3ab5a668481ce02b83e7395059f0'')
          (fresh_conn ''/twilio'')))
      = [Text (Document (JObj [(''event'', JStr ''barge-in''),
                               (''streamsid'', JStr ''MZ18ad3ab5a668481ce02b83e7395059f0'')])),
         Text (Document (JObj [(''event'', JStr ''media''),
                               (''streamsid'', JStr ''MZ18ad3ab5a668481ce02b83e7395059f0''),
                               (''media'', JObj [(''payload'', JStr ''AQID'')])]))]"
proof -
  have t: "map_of [(''type'', JStr ''UserStartedSpeaking'')] ''type'' = Some (JStr ''UserStartedSpeaking'')"
    by simp
  have o1: "is_open (ws_twilio example_state)" by code_simp
  have o2: "is_open (fresh_conn ''/twilio'')" by code_simp
  from barge_in_sent_at_once [OF t o1 o2, of example_env "[Msg (Binary [1, 2, 3])]"]
  have e: "\<exists>later. sent (ws_twilio (sts_receiver example_env
          (Msg (Text (Document (JObj [(''type'', JStr ''UserStartedSpeaking'')])))
           # [Msg (Binary [1, 2, 3])]) example_state))
        = sent (ws_twilio example_state) @ Text (Document (JObj [(''event'', JStr ''clear''),
                       (''streamSid'', JStr (stream_sid (ws_twilio example_state)))])) # later"
    by blast
  have c1: "sent (ws_twilio (sts_receiver example_env
          (Msg (Text (Document (JObj [(''type'', JStr ''UserStartedSpeaking'')])))
           # [Msg (Binary [1, 2, 3])]) example_state))
      = [Text (Document (JObj [(''event'', JStr ''clear''),
                               (''streamSid'', JStr ''MZ18ad3ab5a668481ce02b83e7395059f0'')])),
         Text (Document (JObj [(''event'', JStr ''media''),
                               (''streamSid'', JStr ''MZ18ad3ab5a668481ce02b83e7395059f0''),
                               (''media'', JObj [(''payload'', JStr ''AQID'')])]))]"
    by code_simp
  have c2: "sent (snd (basic_sts_receiver_loop example_env
          (Msg (Text (Document (JObj [(''type'', JStr ''UserStartedSpeaking'')])))
           # [Msg (Binary [1, 2, 3])]) (JStr ''MZ18ad3ab5a668481ce02b83e7395059f0'')
          (fresh_conn ''/twilio'')))
      = [Text (Document (JObj [(''event'', JStr ''barge-in''),
                               (''streamsid'', JStr ''MZ18ad3ab5a668481ce02b83e7395059f0'')])),
         Text (Document (JObj [(''event'', JStr ''media''),
                               (''streamsid'', JStr ''MZ18ad3ab5a668481ce02b83e7395059f0''),
                               (''media'', JObj [(''payload'', JStr ''AQID'')])]))]"
    by code_simp
  from t o1 o2 e c1 c2 show ?thesis by (intro conjI)
qed

end
